theory Spec2Isabelle
  imports Main "HOL-Library.Sublist"
begin

section \<open>Values of the Go runtime and standard library\<close>

text \<open>
  A Go \<open>string\<close> is a byte sequence, modelled as \<^typ>\<open>string\<close>. A Go \<open>int\<close> is a
  64-bit integer; the adapters only compare page numbers and sizes with constants and
  print them, never compute with them, so they are modelled as \<^typ>\<open>int\<close>.

  Every operation returns \<open>(value, error)\<close>; the model returns a sum whose left side is
  the failure. A failed type assertion or an out-of-range index is a run-time panic,
  kept apart from an \<open>error\<close> value.
\<close>

datatype error = Err string | Panic

text \<open>The verb \<open>%d\<close> of \<open>fmt.Sprintf\<close>: decimal digits, with a minus sign below zero.\<close>

fun dec :: "nat \<Rightarrow> string" where
  "dec n = (if n < 10 then [''0123456789'' ! n]
            else dec (n div 10) @ [''0123456789'' ! (n mod 10)])"

declare dec.simps [simp del]

definition fmt_d :: "int \<Rightarrow> string" where
  "fmt_d i = (if i < 0 then CHR ''-'' # dec (nat (- i)) else dec (nat i))"

text \<open>
  The error every \<open>doRequest\<close> builds with \<open>"API error (status %d): %s"\<close> from a status
  and a body.
\<close>

abbreviation API_error :: "int \<Rightarrow> string \<Rightarrow> error" where
  "API_error status body \<equiv> Err (''API error (status '' @ fmt_d status @ ''): '' @ body)"

text \<open>
  The HTTP stack (\<open>http.NewRequestWithContext\<close>, \<open>Client.Do\<close>, \<open>io.ReadAll\<close>) is the
  environment of every adapter. A client's \<open>httpClient\<close> field is modelled as a function
  from the request the adapter builds to the outcome of these three calls: each may
  fail with its own error, or the upstream answers with a status code and a body.
  Every operation returns, next to its result, the list of requests it handed to the
  stack, so that "no request is made" is the empty list.
\<close>

record request =
  req_url :: string
  req_headers :: "(string \<times> string) list"

datatype net_result =
    CreateErr string
  | DoErr string
  | ReadErr string
  | Resp int string

type_synonym httpClient = "request \<Rightarrow> net_result"

text \<open>
  \<open>json.Unmarshal\<close> into a typed destination is a parameter of each operation: a
  function from the body to the decoder's error text or the decoded value.
\<close>

type_synonym 'a unmarshal = "string \<Rightarrow> string + 'a"

section \<open>Package cnpj\<close>

definition cnpj_BaseURL :: string where
  "cnpj_BaseURL = ''https://minhareceita.org''"

record Partner =
  Nome :: string
  CPFRepresentante :: string
  NomeRepresentante :: string
  QualificacaoSocio :: string
  DataEntradaSociedade :: string

text \<open>
  \<open>CNPJData\<close>: the \<open>float64\<close> field has the type parameter \<open>'f\<close>, the fields of type
  \<open>map[string]interface{}\<close> the type parameter \<open>'m\<close>.
\<close>

record ('f, 'm) CNPJData =
  CNPJ :: string
  RazaoSocial :: string
  NomeFantasia :: string
  SituacaoCadastral :: int
  DescricaoSituacaoCadastral :: string
  DataSituacaoCadastral :: string
  AtividadePrincipal :: 'm
  AtividadesSecundarias :: "'m list"
  NaturezaJuridica :: string
  Logradouro :: string
  Numero :: string
  Complemento :: string
  Bairro :: string
  Municipio :: string
  UF :: string
  CEP :: string
  Email :: string
  Telefone :: string
  DataAbertura :: string
  CapitalSocial :: 'f
  QSA :: "Partner list"
  Source :: string

text \<open>
  The function given to \<open>strings.Map\<close> keeps a rune between \<open>'0'\<close> and \<open>'9'\<close> and drops
  every other one. The bytes of a multi-byte UTF-8 sequence, and invalid bytes, are all
  above \<open>0x7F\<close>, so dropping runes and dropping bytes give the same string.
\<close>

definition is_digit :: "char \<Rightarrow> bool" where
  "is_digit r = ((48::nat) \<le> of_char r \<and> of_char r \<le> (57::nat))"

text \<open>The slice expression \<open>s[lo:hi]\<close>, used only where \<open>hi \<le> len(s)\<close> has been checked.\<close>

definition slice :: "string \<Rightarrow> nat \<Rightarrow> nat \<Rightarrow> string" where
  "slice s lo hi = take (hi - lo) (drop lo s)"

definition formatCNPJ :: "string \<Rightarrow> error + string" where
  "formatCNPJ cnpj =
     (let digits = filter is_digit cnpj in
      if length digits \<noteq> 14
      then Inl (Err (''invalid CNPJ: must have 14 digits, got '' @ fmt_d (int (length digits))))
      else Inr (slice digits 0 2 @ ''.'' @ slice digits 2 5 @ ''.'' @ slice digits 5 8
                @ ''/'' @ slice digits 8 12 @ ''-'' @ slice digits 12 14))"

definition GetCNPJ ::
  "httpClient \<Rightarrow> ('f, 'm) CNPJData unmarshal \<Rightarrow> string
     \<Rightarrow> request list \<times> (error + ('f, 'm) CNPJData)" where
  "GetCNPJ c unmarshal cnpj =
     (case formatCNPJ cnpj of
        Inl err \<Rightarrow> ([], Inl err)
      | Inr formattedCNPJ \<Rightarrow>
          (let req = \<lparr>req_url = cnpj_BaseURL @ ''/'' @ formattedCNPJ,
                      req_headers = [(''Accept'', ''application/json'')]\<rparr>
           in ([req],
               case c req of
                 CreateErr e \<Rightarrow> Inl (Err (''creating request: '' @ e))
               | DoErr e \<Rightarrow> Inl (Err (''executing request: '' @ e))
               | ReadErr e \<Rightarrow> Inl (Err (''reading response: '' @ e))
               | Resp status body \<Rightarrow>
                   if status = 404
                   then Inl (Err (''CNPJ not found: '' @ formattedCNPJ))
                   else if status \<noteq> 200
                   then Inl (Err (''API error (status '' @ fmt_d status @ ''): '' @ body))
                   else (case unmarshal body of
                           Inl e \<Rightarrow> Inl (Err (''parsing response: '' @ e))
                         | Inr data \<Rightarrow>
                             Inr (data\<lparr>CNPJData.Source := ''minhareceita_api''\<rparr>)))))"

text \<open>The zero value of \<open>CNPJData\<close>, with \<open>()\<close> for the fields left as type parameters.\<close>

definition blank_CNPJData :: "(unit, unit) CNPJData" where
  "blank_CNPJData =
     \<lparr>CNPJ = [], RazaoSocial = [], NomeFantasia = [], SituacaoCadastral = 0,
      DescricaoSituacaoCadastral = [], DataSituacaoCadastral = [], AtividadePrincipal = (),
      AtividadesSecundarias = [], NaturezaJuridica = [], Logradouro = [], Numero = [],
      Complemento = [], Bairro = [], Municipio = [], UF = [], CEP = [], Email = [],
      Telefone = [], DataAbertura = [], CapitalSocial = (), QSA = [], Source = []\<rparr>"

section \<open>Package bcb\<close>

definition SGSURL :: string where
  "SGSURL = ''https://api.bcb.gov.br/dados/serie/bcdata.sgs''"

definition OlindaURL :: string where
  "OlindaURL = ''https://olinda.bcb.gov.br/olinda/servico''"

definition SeriesCodes :: "string \<rightharpoonup> int" where
  "SeriesCodes = map_of
     [(''selic'', 11),
      (''selic_monthly'', 4390),
      (''ipca'', 433),
      (''igpm'', 189),
      (''cdi'', 12)]"

record DataPoint =
  Date :: string
  Value :: string

record IndicatorResponse =
  Indicator :: string
  Data :: "DataPoint list"
  Total :: int
  Source :: string

text \<open>\<open>ExchangeRate\<close> holds \<open>float64\<close> fields; it is the type parameter \<open>'r\<close>.\<close>

record 'r ExchangeRateResponse =
  Currency :: string
  Date :: string
  Rates :: "'r list"
  Source :: string

text \<open>The anonymous struct \<open>{ Value []ExchangeRate }\<close> decoded by \<open>GetExchangeRate\<close>.\<close>

record 'r exchange_result =
  Value :: "'r list"

record ('f, 'j) PIXStats =
  TotalTransactions :: int
  TotalValue :: 'f
  Data :: 'j

record ('f, 'j) PIXResponse =
  Stats :: "('f, 'j) PIXStats"
  Source :: string

definition bcb_doRequest :: "httpClient \<Rightarrow> string \<Rightarrow> request list \<times> (error + string)" where
  "bcb_doRequest c url =
     (let req = \<lparr>req_url = url, req_headers = [(''Accept'', ''application/json'')]\<rparr>
      in ([req],
          case c req of
            CreateErr e \<Rightarrow> Inl (Err (''creating request: '' @ e))
          | DoErr e \<Rightarrow> Inl (Err (''executing request: '' @ e))
          | ReadErr e \<Rightarrow> Inl (Err (''reading response: '' @ e))
          | Resp status body \<Rightarrow>
              if status \<noteq> 200
              then Inl (Err (''API error (status '' @ fmt_d status @ ''): '' @ body))
              else Inr body))"

definition GetIndicator ::
  "httpClient \<Rightarrow> DataPoint list unmarshal \<Rightarrow> string \<Rightarrow> int
     \<Rightarrow> request list \<times> (error + IndicatorResponse)" where
  "GetIndicator c unmarshal indicator lastN =
     (case SeriesCodes indicator of
        None \<Rightarrow>
          ([], Inl (Err (''unknown indicator: '' @ indicator
                         @ ''. Available: selic, selic_monthly, ipca, igpm, cdi'')))
      | Some seriesCode \<Rightarrow>
          (let lastN = (if lastN \<le> 0 then 30 else lastN);
               url = SGSURL @ ''.'' @ fmt_d seriesCode @ ''/dados/ultimos/'' @ fmt_d lastN
                     @ ''?formato=json''
           in case bcb_doRequest c url of
                (sent, Inl err) \<Rightarrow> (sent, Inl err)
              | (sent, Inr body) \<Rightarrow>
                  (case unmarshal body of
                     Inl e \<Rightarrow> (sent, Inl (Err (''parsing response: '' @ e)))
                   | Inr data \<Rightarrow>
                       (sent, Inr \<lparr>IndicatorResponse.Indicator = indicator,
                                   IndicatorResponse.Data = data,
                                   IndicatorResponse.Total = int (length data),
                                   IndicatorResponse.Source = ''bcb_api''\<rparr>))))"

definition GetSELIC ::
  "httpClient \<Rightarrow> DataPoint list unmarshal \<Rightarrow> int
     \<Rightarrow> request list \<times> (error + IndicatorResponse)" where
  "GetSELIC c unmarshal lastN = GetIndicator c unmarshal ''selic'' lastN"

definition GetIPCA ::
  "httpClient \<Rightarrow> DataPoint list unmarshal \<Rightarrow> int
     \<Rightarrow> request list \<times> (error + IndicatorResponse)" where
  "GetIPCA c unmarshal lastN = GetIndicator c unmarshal ''ipca'' lastN"

text \<open>
  \<open>today\<close> is \<open>time.Now().Format("01-02-2006")\<close>, the clock being outside the program.
\<close>

definition GetExchangeRate ::
  "httpClient \<Rightarrow> 'r exchange_result unmarshal \<Rightarrow> string \<Rightarrow> string \<Rightarrow> string
     \<Rightarrow> request list \<times> (error + 'r ExchangeRateResponse)" where
  "GetExchangeRate c unmarshal today currency date =
     (let currency = (if currency = [] then ''USD'' else currency);
          date = (if date = [] then today else date);
          url = OlindaURL
                @ ''/PTAX/versao/v1/odata/CotacaoMoedaDia(moeda=@moeda,dataCotacao=@dataCotacao)?@moeda=''
                @ [CHR 0x27] @ currency @ [CHR 0x27] @ ''&@dataCotacao='' @ [CHR 0x27] @ date
                @ [CHR 0x27] @ ''&$format=json''
      in case bcb_doRequest c url of
           (sent, Inl err) \<Rightarrow> (sent, Inl err)
         | (sent, Inr body) \<Rightarrow>
             (case unmarshal body of
                Inl e \<Rightarrow> (sent, Inl (Err (''parsing response: '' @ e)))
              | Inr result \<Rightarrow>
                  (sent, Inr \<lparr>ExchangeRateResponse.Currency = currency,
                              ExchangeRateResponse.Date = date,
                              ExchangeRateResponse.Rates = exchange_result.Value result,
                              ExchangeRateResponse.Source = ''bcb_api''\<rparr>)))"

text \<open>
  \<open>GetPIXStats\<close> fills only \<open>Data\<close>; the other two fields of \<open>PIXStats\<close> keep Go's zero
  value.
\<close>

definition GetPIXStats ::
  "httpClient \<Rightarrow> 'j unmarshal \<Rightarrow> request list \<times> (error + ('f::zero, 'j) PIXResponse)" where
  "GetPIXStats c unmarshal =
     (let url = OlindaURL
                @ ''/Pix_DadosAbertos/versao/v1/odata/EstatisticasTransacoesPix(Database=@Database)?@Database=''
                @ [CHR 0x27] @ ''202401'' @ [CHR 0x27] @ ''&$format=json''
      in case bcb_doRequest c url of
           (sent, Inl err) \<Rightarrow> (sent, Inl err)
         | (sent, Inr body) \<Rightarrow>
             (case unmarshal body of
                Inl e \<Rightarrow> (sent, Inl (Err (''parsing response: '' @ e)))
              | Inr result \<Rightarrow>
                  (sent, Inr \<lparr>PIXResponse.Stats =
                                \<lparr>PIXStats.TotalTransactions = 0,
                                 PIXStats.TotalValue = 0,
                                 PIXStats.Data = result\<rparr>,
                              PIXResponse.Source = ''bcb_api''\<rparr>)))"

section \<open>Package ibge\<close>

definition LocalidadesURL :: string where
  "LocalidadesURL = ''https://servicodados.ibge.gov.br/api/v1/localidades''"

definition AgregadosURL :: string where
  "AgregadosURL = ''https://servicodados.ibge.gov.br/api/v3/agregados''"

text \<open>\<open>State\<close> and \<open>Municipality\<close> are the type parameters \<open>'s\<close> and \<open>'m\<close>.\<close>

record 's StatesResponse =
  States :: "'s list"
  Total :: int
  Source :: string

record 'm MunicipalitiesResponse =
  Municipalities :: "'m list"
  Total :: int
  StateID :: string
  Source :: string

record PopulationData =
  Location :: string
  Year :: string
  Population :: string

record PopulationResponse =
  Data :: "PopulationData list"
  Source :: string

text \<open>
  What \<open>json.Unmarshal\<close> stores in an \<open>interface{}\<close>: \<open>nil\<close>, \<open>bool\<close>, \<open>float64\<close> (the
  type parameter \<open>'n\<close>), \<open>string\<close>, \<open>[]interface{}\<close> or \<open>map[string]interface{}\<close>. A map is
  an association list that holds each key once; \<open>range\<close> over a Go map visits the keys
  in an unspecified order, and the model visits them in the order of the list.
\<close>

datatype 'n json =
    JNull
  | JBool bool
  | JNumber 'n
  | JString string
  | JArray "'n json list"
  | JObject "(string \<times> 'n json) list"

definition ibge_doRequest :: "httpClient \<Rightarrow> string \<Rightarrow> request list \<times> (error + string)" where
  "ibge_doRequest c url =
     (let req = \<lparr>req_url = url, req_headers = [(''Accept'', ''application/json'')]\<rparr>
      in ([req],
          case c req of
            CreateErr e \<Rightarrow> Inl (Err (''creating request: '' @ e))
          | DoErr e \<Rightarrow> Inl (Err (''executing request: '' @ e))
          | ReadErr e \<Rightarrow> Inl (Err (''reading response: '' @ e))
          | Resp status body \<Rightarrow>
              if status \<noteq> 200
              then Inl (Err (''API error (status '' @ fmt_d status @ ''): '' @ body))
              else Inr body))"

definition GetStates ::
  "httpClient \<Rightarrow> 's list unmarshal \<Rightarrow> request list \<times> (error + 's StatesResponse)" where
  "GetStates c unmarshal =
     (let url = LocalidadesURL @ ''/estados?orderBy=nome''
      in case ibge_doRequest c url of
           (sent, Inl err) \<Rightarrow> (sent, Inl err)
         | (sent, Inr body) \<Rightarrow>
             (case unmarshal body of
                Inl e \<Rightarrow> (sent, Inl (Err (''parsing response: '' @ e)))
              | Inr states \<Rightarrow>
                  (sent, Inr \<lparr>StatesResponse.States = states,
                              StatesResponse.Total = int (length states),
                              StatesResponse.Source = ''ibge_api''\<rparr>)))"

definition GetMunicipalities ::
  "httpClient \<Rightarrow> 'm list unmarshal \<Rightarrow> string
     \<Rightarrow> request list \<times> (error + 'm MunicipalitiesResponse)" where
  "GetMunicipalities c unmarshal stateID =
     (let url = (if stateID \<noteq> []
                 then LocalidadesURL @ ''/estados/'' @ stateID @ ''/municipios?orderBy=nome''
                 else LocalidadesURL @ ''/municipios?orderBy=nome'')
      in case ibge_doRequest c url of
           (sent, Inl err) \<Rightarrow> (sent, Inl err)
         | (sent, Inr body) \<Rightarrow>
             (case unmarshal body of
                Inl e \<Rightarrow> (sent, Inl (Err (''parsing response: '' @ e)))
              | Inr municipalities \<Rightarrow>
                  (sent, Inr \<lparr>MunicipalitiesResponse.Municipalities = municipalities,
                              MunicipalitiesResponse.Total = int (length municipalities),
                              MunicipalitiesResponse.StateID = stateID,
                              MunicipalitiesResponse.Source = ''ibge_api''\<rparr>)))"

text \<open>
  The inner loop of \<open>GetPopulation\<close>, over the entries of \<open>serieData\<close>: the assertion
  \<open>localidade["nome"].(string)\<close> has no \<open>ok\<close> result, so it panics when the key is
  missing or holds another type. \<open>fmt_v\<close> is the verb \<open>%v\<close> of \<open>fmt.Sprintf\<close>.
\<close>

fun serieData_loop ::
  "('n json \<Rightarrow> string) \<Rightarrow> (string \<times> 'n json) list \<Rightarrow> (string \<times> 'n json) list
     \<Rightarrow> PopulationData list \<Rightarrow> error + PopulationData list" where
  "serieData_loop fmt_v localidade [] data = Inr data"
| "serieData_loop fmt_v localidade ((year, pop) # rest) data =
     (case map_of localidade ''nome'' of
        Some (JString nome) \<Rightarrow>
          serieData_loop fmt_v localidade rest
            (data @ [\<lparr>Location = nome, Year = year, Population = fmt_v pop\<rparr>])
      | _ \<Rightarrow> Inl Panic)"

text \<open>
  The outer loop, over \<open>series\<close>: \<open>s.(map[string]interface{})\<close> and
  \<open>serie["localidade"].(map[string]interface{})\<close> panic on another type; only the
  assertion on \<open>serie["serie"]\<close> takes the \<open>ok\<close> result and skips the element.
\<close>

fun series_loop ::
  "('n json \<Rightarrow> string) \<Rightarrow> 'n json list \<Rightarrow> PopulationData list
     \<Rightarrow> error + PopulationData list" where
  "series_loop fmt_v [] data = Inr data"
| "series_loop fmt_v (s # rest) data =
     (case s of
        JObject serie \<Rightarrow>
          (case map_of serie ''localidade'' of
             Some (JObject localidade) \<Rightarrow>
               (case map_of serie ''serie'' of
                  Some (JObject serieData) \<Rightarrow>
                    (case serieData_loop fmt_v localidade serieData data of
                       Inl e \<Rightarrow> Inl e
                     | Inr data' \<Rightarrow> series_loop fmt_v rest data')
                | _ \<Rightarrow> series_loop fmt_v rest data)
           | _ \<Rightarrow> Inl Panic)
      | _ \<Rightarrow> Inl Panic)"

text \<open>
  The extraction pass of \<open>GetPopulation\<close> on the decoded \<open>[]map[string]interface{}\<close>.
  \<open>resultados[0].(map[string]interface{})\<close> is one more assertion without \<open>ok\<close>.
\<close>

definition extract_population ::
  "('n json \<Rightarrow> string) \<Rightarrow> (string \<times> 'n json) list list \<Rightarrow> error + PopulationData list" where
  "extract_population fmt_v result =
     (case result of
        [] \<Rightarrow> Inr []
      | first # _ \<Rightarrow>
          (case map_of first ''resultados'' of
             Some (JArray (r0 # _)) \<Rightarrow>
               (case r0 of
                  JObject resultado \<Rightarrow>
                    (case map_of resultado ''series'' of
                       Some (JArray series) \<Rightarrow> series_loop fmt_v series []
                     | _ \<Rightarrow> Inr [])
                | _ \<Rightarrow> Inl Panic)
           | _ \<Rightarrow> Inr []))"

definition GetPopulation ::
  "httpClient \<Rightarrow> (string \<times> 'n json) list list unmarshal \<Rightarrow> ('n json \<Rightarrow> string) \<Rightarrow> string
     \<Rightarrow> request list \<times> (error + PopulationResponse)" where
  "GetPopulation c unmarshal fmt_v locationID =
     (let url = (if locationID \<noteq> []
                 then AgregadosURL @ ''/6579/periodos/-6/variaveis/9324?localidades=N6[''
                      @ locationID @ '']''
                 else AgregadosURL @ ''/6579/periodos/-6/variaveis/9324?localidades=N1[all]'')
      in case ibge_doRequest c url of
           (sent, Inl err) \<Rightarrow> (sent, Inl err)
         | (sent, Inr body) \<Rightarrow>
             (case unmarshal body of
                Inl e \<Rightarrow> (sent, Inl (Err (''parsing response: '' @ e)))
              | Inr result \<Rightarrow>
                  (case extract_population fmt_v result of
                     Inl e \<Rightarrow> (sent, Inl e)
                   | Inr data \<Rightarrow>
                       (sent, Inr \<lparr>PopulationResponse.Data = data,
                                   PopulationResponse.Source = ''ibge_api''\<rparr>))))"

section \<open>Query strings of net/url\<close>

text \<open>
  \<open>url.Values\<close> is \<open>map[string][]string\<close>. The adapters only call \<open>Set\<close>, which
  replaces the values of a key by one value, so the model is an association list from
  a key to its value, each key held once.
\<close>

type_synonym Values = "(string \<times> string) list"

fun Values_Set :: "Values \<Rightarrow> string \<Rightarrow> string \<Rightarrow> Values" where
  "Values_Set [] key v = [(key, v)]"
| "Values_Set ((k, x) # rest) key v =
     (if k = key then (key, v) # rest else (k, x) # Values_Set rest key v)"

text \<open>
  \<open>url.QueryEscape\<close>: letters, digits and \<open>- _ . ~\<close> stay, a space becomes \<open>+\<close>, every
  other byte becomes \<open>%XX\<close> in upper-case hexadecimal.
\<close>

definition shouldEscape :: "char \<Rightarrow> bool" where
  "shouldEscape c =
     (let n = (of_char c :: nat) in
      \<not> ((97 \<le> n \<and> n \<le> 122) \<or> (65 \<le> n \<and> n \<le> 90) \<or> (48 \<le> n \<and> n \<le> 57)
         \<or> c = CHR ''-'' \<or> c = CHR ''_'' \<or> c = CHR ''.'' \<or> c = CHR ''~''))"

definition escape_byte :: "char \<Rightarrow> string" where
  "escape_byte c =
     (if c = CHR '' '' then ''+''
      else if shouldEscape c
      then [CHR ''%'', ''0123456789ABCDEF'' ! (of_char c div 16),
            ''0123456789ABCDEF'' ! (of_char c mod 16)]
      else [c])"

definition QueryEscape :: "string \<Rightarrow> string" where
  "QueryEscape s = concat (map escape_byte s)"

text \<open>The order of Go strings: byte by byte, a proper prefix first.\<close>

fun str_less :: "string \<Rightarrow> string \<Rightarrow> bool" where
  "str_less [] [] = False"
| "str_less [] (y # ys) = True"
| "str_less (x # xs) [] = False"
| "str_less (x # xs) (y # ys) =
     ((of_char x :: nat) < of_char y \<or> (x = y \<and> str_less xs ys))"

fun insert_by_key :: "string \<times> string \<Rightarrow> Values \<Rightarrow> Values" where
  "insert_by_key p [] = [p]"
| "insert_by_key p (q # rest) =
     (if str_less (fst q) (fst p) then q # insert_by_key p rest else p # q # rest)"

definition sort_by_key :: "Values \<Rightarrow> Values" where
  "sort_by_key v = foldr insert_by_key v []"

fun join_amp :: "string list \<Rightarrow> string" where
  "join_amp [] = []"
| "join_amp [x] = x"
| "join_amp (x # y # rest) = x @ ''&'' @ join_amp (y # rest)"

text \<open>\<open>Values.Encode\<close>: the keys in sorted order, \<open>key=value\<close> escaped, joined by \<open>&\<close>.\<close>

definition Encode :: "Values \<Rightarrow> string" where
  "Encode v =
     join_amp (map (\<lambda>(k, x). QueryEscape k @ ''='' @ QueryEscape x) (sort_by_key v))"

section \<open>Package pncp\<close>

definition pncp_BaseURL :: string where
  "pncp_BaseURL = ''https://pncp.gov.br/api/consulta/v1''"

definition Modalities :: "string \<rightharpoonup> int" where
  "Modalities = map_of
     [(''pregao_eletronico'', 6),
      (''concorrencia_eletronica'', 1),
      (''concorrencia'', 2),
      (''concurso'', 3),
      (''leilao_eletronico'', 4),
      (''leilao'', 5),
      (''dialogo_competitivo'', 7),
      (''credenciamento'', 8)]"

text \<open>
  \<open>ContractPublication\<close> and \<open>PriceRegistration\<close> are the type parameters \<open>'c\<close> and
  \<open>'p\<close>.
\<close>

record 'c pncp_ContractsResponse =
  Contracts :: "'c list"
  Total :: int
  Page :: int
  PageSize :: int
  Source :: string

record 'p PriceRegistrationsResponse =
  Registrations :: "'p list"
  Total :: int
  Page :: int
  Source :: string

text \<open>The anonymous structs decoded by the two searches.\<close>

record 'c contracts_result =
  Data :: "'c list"
  TotalRegistros :: int

record 'p registrations_result =
  Data :: "'p list"

definition pncp_doRequest ::
  "httpClient \<Rightarrow> string \<Rightarrow> Values \<Rightarrow> request list \<times> (error + string)" where
  "pncp_doRequest c endpoint params =
     (let reqURL = pncp_BaseURL @ endpoint;
          reqURL = (if length params > 0 then reqURL @ ''?'' @ Encode params else reqURL);
          req = \<lparr>req_url = reqURL, req_headers = [(''Accept'', ''application/json'')]\<rparr>
      in ([req],
          case c req of
            CreateErr e \<Rightarrow> Inl (Err (''creating request: '' @ e))
          | DoErr e \<Rightarrow> Inl (Err (''executing request: '' @ e))
          | ReadErr e \<Rightarrow> Inl (Err (''reading response: '' @ e))
          | Resp status body \<Rightarrow>
              if status \<noteq> 200
              then Inl (Err (''API error (status '' @ fmt_d status @ ''): '' @ body))
              else Inr body))"

definition pncp_SearchContracts ::
  "httpClient \<Rightarrow> 'c contracts_result unmarshal \<Rightarrow> string \<Rightarrow> string \<Rightarrow> int \<Rightarrow> string
     \<Rightarrow> int \<Rightarrow> int \<Rightarrow> request list \<times> (error + 'c pncp_ContractsResponse)" where
  "pncp_SearchContracts c unmarshal startDate endDate modalityCode state page pageSize =
     (let pageSize = (if pageSize < 10 then 10 else if pageSize > 500 then 500 else pageSize);
          page = (if page < 1 then 1 else page);
          modalityCode = (if modalityCode = 0 then 6 else modalityCode);
          params = [];
          params = Values_Set params ''dataInicial'' startDate;
          params = Values_Set params ''dataFinal'' endDate;
          params = Values_Set params ''codigoModalidadeContratacao'' (fmt_d modalityCode);
          params = Values_Set params ''tamanhoPagina'' (fmt_d pageSize);
          params = Values_Set params ''pagina'' (fmt_d page);
          params = (if state \<noteq> [] then Values_Set params ''uf'' state else params)
      in case pncp_doRequest c ''/contratacoes/publicacao'' params of
           (sent, Inl err) \<Rightarrow> (sent, Inl err)
         | (sent, Inr body) \<Rightarrow>
             (case unmarshal body of
                Inl e \<Rightarrow> (sent, Inl (Err (''parsing response: '' @ e)))
              | Inr result \<Rightarrow>
                  (sent, Inr \<lparr>pncp_ContractsResponse.Contracts = contracts_result.Data result,
                              pncp_ContractsResponse.Total = TotalRegistros result,
                              pncp_ContractsResponse.Page = page,
                              pncp_ContractsResponse.PageSize = pageSize,
                              pncp_ContractsResponse.Source = ''pncp_api''\<rparr>)))"

definition SearchPriceRegistrations ::
  "httpClient \<Rightarrow> 'p registrations_result unmarshal \<Rightarrow> string \<Rightarrow> int \<Rightarrow> int
     \<Rightarrow> request list \<times> (error + 'p PriceRegistrationsResponse)" where
  "SearchPriceRegistrations c unmarshal state page pageSize =
     (let pageSize = (if pageSize < 10 then 10 else if pageSize > 500 then 500 else pageSize);
          page = (if page < 1 then 1 else page);
          params = [];
          params = Values_Set params ''tamanhoPagina'' (fmt_d pageSize);
          params = Values_Set params ''pagina'' (fmt_d page);
          params = (if state \<noteq> [] then Values_Set params ''uf'' state else params)
      in case pncp_doRequest c ''/atas-registro-preco'' params of
           (sent, Inl err) \<Rightarrow> (sent, Inl err)
         | (sent, Inr body) \<Rightarrow>
             (case unmarshal body of
                Inl e \<Rightarrow> (sent, Inl (Err (''parsing response: '' @ e)))
              | Inr result \<Rightarrow>
                  (sent, Inr \<lparr>PriceRegistrationsResponse.Registrations =
                                registrations_result.Data result,
                              PriceRegistrationsResponse.Total =
                                int (length (registrations_result.Data result)),
                              PriceRegistrationsResponse.Page = page,
                              PriceRegistrationsResponse.Source = ''pncp_api''\<rparr>)))"

definition ListModalities :: "string \<rightharpoonup> int" where
  "ListModalities = Modalities"

section \<open>Package transparencia\<close>

definition transparencia_BaseURL :: string where
  "transparencia_BaseURL = ''https://api.portaldatransparencia.gov.br/api-de-dados''"

text \<open>The names are UTF-8; the bytes outside ASCII are written by their codes.\<close>

definition KnownOrgaos_list :: "(string \<times> string) list" where
  "KnownOrgaos_list =
     [(''36000'', ''Minist'' @ [CHR 0xC3, CHR 0xA9] @ ''rio da Sa'' @ [CHR 0xC3, CHR 0xBA] @ ''de''),
      (''26000'', ''Minist'' @ [CHR 0xC3, CHR 0xA9] @ ''rio da Educa'' @ [CHR 0xC3, CHR 0xA7, CHR 0xC3, CHR 0xA3] @ ''o''),
      (''25000'', ''Minist'' @ [CHR 0xC3, CHR 0xA9] @ ''rio da Economia''),
      (''30000'', ''Minist'' @ [CHR 0xC3, CHR 0xA9] @ ''rio da Justi'' @ [CHR 0xC3, CHR 0xA7] @ ''a''),
      (''52000'', ''Minist'' @ [CHR 0xC3, CHR 0xA9] @ ''rio da Defesa''),
      (''35000'', ''Minist'' @ [CHR 0xC3, CHR 0xA9] @ ''rio das Rela'' @ [CHR 0xC3, CHR 0xA7, CHR 0xC3, CHR 0xB5] @ ''es Exteriores''),
      (''44000'', ''Minist'' @ [CHR 0xC3, CHR 0xA9] @ ''rio do Meio Ambiente'')]"

definition KnownOrgaos :: "string \<rightharpoonup> string" where
  "KnownOrgaos = map_of KnownOrgaos_list"

record Client =
  httpClient :: httpClient
  apiKey :: string
  baseURL :: string

definition NewClient :: "httpClient \<Rightarrow> string \<Rightarrow> Client" where
  "NewClient http key = \<lparr>httpClient = http, apiKey = key, baseURL = transparencia_BaseURL\<rparr>"

text \<open>
  The headers are listed under the names the source passes to \<open>Header.Set\<close>, which
  stores them in canonical capitalisation; the key header is set only when a key is
  configured.
\<close>

definition transparencia_doRequest ::
  "Client \<Rightarrow> string \<Rightarrow> Values \<Rightarrow> request list \<times> (error + string)" where
  "transparencia_doRequest c endpoint params =
     (let reqURL = baseURL c @ endpoint;
          reqURL = (if length params > 0 then reqURL @ ''?'' @ Encode params else reqURL);
          hdrs = [(''Accept'', ''application/json''), (''User-Agent'', ''MCP-Brasil/1.0 (Go)'')];
          hdrs = (if apiKey c \<noteq> [] then hdrs @ [(''chave-api-dados'', apiKey c)] else hdrs);
          req = \<lparr>req_url = reqURL, req_headers = hdrs\<rparr>
      in ([req],
          case httpClient c req of
            CreateErr e \<Rightarrow> Inl (Err (''creating request: '' @ e))
          | DoErr e \<Rightarrow> Inl (Err (''executing request: '' @ e))
          | ReadErr e \<Rightarrow> Inl (Err (''reading response: '' @ e))
          | Resp status body \<Rightarrow>
              if status \<noteq> 200
              then Inl (Err (''API error (status '' @ fmt_d status @ ''): '' @ body))
              else Inr body))"

text \<open>
  \<open>Contract\<close>, \<open>Servidor\<close>, \<open>Remuneracao\<close>, \<open>Convenio\<close> and \<open>CEIS\<close> are type parameters.
\<close>

record 'c transparencia_ContractsResponse =
  Contracts :: "'c list"
  Total :: int
  Page :: int
  PageSize :: int
  OrgaoCode :: string
  OrgaoName :: string
  Source :: string

record 's ServidoresResponse =
  Servidores :: "'s list"
  Total :: int
  Page :: int
  PageSize :: int
  Source :: string

record 'r RemuneracaoResponse =
  CPF :: string
  Remuneracao :: "'r list"
  MesAno :: string
  Source :: string

record 'c ConveniosResponse =
  Convenios :: "'c list"
  Total :: int
  Page :: int
  PageSize :: int
  UF :: string
  Source :: string

record 'e CEISResponse =
  Empresas :: "'e list"
  Total :: int
  Page :: int
  PageSize :: int
  Source :: string

definition transparencia_SearchContracts ::
  "Client \<Rightarrow> 'c list unmarshal \<Rightarrow> string \<Rightarrow> int \<Rightarrow> int
     \<Rightarrow> request list \<times> (error + 'c transparencia_ContractsResponse)" where
  "transparencia_SearchContracts c unmarshal orgaoCode page pageSize =
     (let orgaoCode = (if orgaoCode = [] then ''36000'' else orgaoCode);
          page = (if page < 1 then 1 else page);
          pageSize = (if pageSize < 1 \<or> pageSize > 500 then 100 else pageSize);
          params = [];
          params = Values_Set params ''codigoOrgao'' orgaoCode;
          params = Values_Set params ''pagina'' (fmt_d page);
          params = Values_Set params ''tamanhoPagina'' (fmt_d pageSize)
      in case transparencia_doRequest c ''/contratos'' params of
           (sent, Inl err) \<Rightarrow> (sent, Inl err)
         | (sent, Inr body) \<Rightarrow>
             (case unmarshal body of
                Inl e \<Rightarrow> (sent, Inl (Err (''parsing response: '' @ e)))
              | Inr contracts \<Rightarrow>
                  (let orgaoName = (case KnownOrgaos orgaoCode of None \<Rightarrow> [] | Some n \<Rightarrow> n);
                       orgaoName = (if orgaoName = [] then ''Orgao Desconhecido'' else orgaoName)
                   in (sent, Inr \<lparr>transparencia_ContractsResponse.Contracts = contracts,
                                  transparencia_ContractsResponse.Total = int (length contracts),
                                  transparencia_ContractsResponse.Page = page,
                                  transparencia_ContractsResponse.PageSize = pageSize,
                                  transparencia_ContractsResponse.OrgaoCode = orgaoCode,
                                  transparencia_ContractsResponse.OrgaoName = orgaoName,
                                  transparencia_ContractsResponse.Source =
                                    ''portal_transparencia_api''\<rparr>))))"

definition SearchServidores ::
  "Client \<Rightarrow> 's list unmarshal \<Rightarrow> string \<Rightarrow> int \<Rightarrow> int
     \<Rightarrow> request list \<times> (error + 's ServidoresResponse)" where
  "SearchServidores c unmarshal nome page pageSize =
     (if nome = [] then ([], Inl (Err ''nome is required''))
      else
        (let page = (if page < 1 then 1 else page);
             pageSize = (if pageSize < 1 \<or> pageSize > 500 then 100 else pageSize);
             params = [];
             params = Values_Set params ''nome'' nome;
             params = Values_Set params ''pagina'' (fmt_d page);
             params = Values_Set params ''tamanhoPagina'' (fmt_d pageSize)
         in case transparencia_doRequest c ''/servidores'' params of
              (sent, Inl err) \<Rightarrow> (sent, Inl err)
            | (sent, Inr body) \<Rightarrow>
                (case unmarshal body of
                   Inl e \<Rightarrow> (sent, Inl (Err (''parsing response: '' @ e)))
                 | Inr servidores \<Rightarrow>
                     (sent, Inr \<lparr>ServidoresResponse.Servidores = servidores,
                                 ServidoresResponse.Total = int (length servidores),
                                 ServidoresResponse.Page = page,
                                 ServidoresResponse.PageSize = pageSize,
                                 ServidoresResponse.Source = ''portal_transparencia_api''\<rparr>))))"

text \<open>
  \<open>lastMonth\<close> is \<open>time.Now().AddDate(0, -1, 0).Format("01/2006")\<close>, the clock being
  outside the program.
\<close>

definition GetServidorRemuneracao ::
  "Client \<Rightarrow> 'r list unmarshal \<Rightarrow> string \<Rightarrow> string \<Rightarrow> string
     \<Rightarrow> request list \<times> (error + 'r RemuneracaoResponse)" where
  "GetServidorRemuneracao c unmarshal lastMonth cpf mesAno =
     (if cpf = [] then ([], Inl (Err ''cpf is required''))
      else
        (let mesAno = (if mesAno = [] then lastMonth else mesAno);
             params = [];
             params = Values_Set params ''mesAno'' mesAno;
             endpoint = ''/servidores/'' @ cpf @ ''/remuneracao''
         in case transparencia_doRequest c endpoint params of
              (sent, Inl err) \<Rightarrow> (sent, Inl err)
            | (sent, Inr body) \<Rightarrow>
                (case unmarshal body of
                   Inl e \<Rightarrow> (sent, Inl (Err (''parsing response: '' @ e)))
                 | Inr remuneracoes \<Rightarrow>
                     (sent, Inr \<lparr>RemuneracaoResponse.CPF = cpf,
                                 RemuneracaoResponse.Remuneracao = remuneracoes,
                                 RemuneracaoResponse.MesAno = mesAno,
                                 RemuneracaoResponse.Source = ''portal_transparencia_api''\<rparr>))))"

definition SearchConvenios ::
  "Client \<Rightarrow> 'c list unmarshal \<Rightarrow> string \<Rightarrow> int \<Rightarrow> int
     \<Rightarrow> request list \<times> (error + 'c ConveniosResponse)" where
  "SearchConvenios c unmarshal uf page pageSize =
     (let uf = (if uf = [] then ''MG'' else uf);
          page = (if page < 1 then 1 else page);
          pageSize = (if pageSize < 1 \<or> pageSize > 500 then 100 else pageSize);
          params = [];
          params = Values_Set params ''uf'' uf;
          params = Values_Set params ''pagina'' (fmt_d page);
          params = Values_Set params ''tamanhoPagina'' (fmt_d pageSize)
      in case transparencia_doRequest c ''/convenios'' params of
           (sent, Inl err) \<Rightarrow> (sent, Inl err)
         | (sent, Inr body) \<Rightarrow>
             (case unmarshal body of
                Inl e \<Rightarrow> (sent, Inl (Err (''parsing response: '' @ e)))
              | Inr convenios \<Rightarrow>
                  (sent, Inr \<lparr>ConveniosResponse.Convenios = convenios,
                              ConveniosResponse.Total = int (length convenios),
                              ConveniosResponse.Page = page,
                              ConveniosResponse.PageSize = pageSize,
                              ConveniosResponse.UF = uf,
                              ConveniosResponse.Source = ''portal_transparencia_api''\<rparr>)))"

definition SearchCEIS ::
  "Client \<Rightarrow> 'e list unmarshal \<Rightarrow> string \<Rightarrow> int \<Rightarrow> int
     \<Rightarrow> request list \<times> (error + 'e CEISResponse)" where
  "SearchCEIS c unmarshal cnpj page pageSize =
     (let page = (if page < 1 then 1 else page);
          pageSize = (if pageSize < 1 \<or> pageSize > 500 then 100 else pageSize);
          params = [];
          params = (if cnpj \<noteq> [] then Values_Set params ''cnpj'' cnpj else params);
          params = Values_Set params ''pagina'' (fmt_d page);
          params = Values_Set params ''tamanhoPagina'' (fmt_d pageSize)
      in case transparencia_doRequest c ''/ceis'' params of
           (sent, Inl err) \<Rightarrow> (sent, Inl err)
         | (sent, Inr body) \<Rightarrow>
             (case unmarshal body of
                Inl e \<Rightarrow> (sent, Inl (Err (''parsing response: '' @ e)))
              | Inr empresas \<Rightarrow>
                  (sent, Inr \<lparr>CEISResponse.Empresas = empresas,
                              CEISResponse.Total = int (length empresas),
                              CEISResponse.Page = page,
                              CEISResponse.PageSize = pageSize,
                              CEISResponse.Source = ''portal_transparencia_api''\<rparr>)))"

text \<open>
  \<open>ListOrgaos\<close> ranges over the map in an unspecified order; the model takes the order
  in which the table is written.
\<close>

definition ListOrgaos :: "(string \<times> string) list list" where
  "ListOrgaos = map (\<lambda>(code, name). [(''codigo'', code), (''nome'', name)]) KnownOrgaos_list"


section \<open>Facts about the library model\<close>

lemma dec_digits: "\<forall>ch \<in> set (dec n). is_digit ch"
proof (induction n rule: dec.induct)
  case (1 n)
  have d: "is_digit (''0123456789'' ! k)" if "k < 10" for k
  proof -
    from that have "k \<in> {0, 1, 2, 3, 4, 5, 6, 7, 8, 9}" by auto
    then show ?thesis by (auto simp: is_digit_def)
  qed
  show ?case
  proof (cases "n < 10")
    case True
    then show ?thesis by (subst dec.simps) (simp add: d)
  next
    case False
    then have "\<forall>ch \<in> set (dec (n div 10)). is_digit ch" using 1 by simp
    moreover have "is_digit (''0123456789'' ! (n mod 10))" by (rule d) simp
    ultimately show ?thesis using False by (subst dec.simps) auto
  qed
qed

lemma escape_byte_digit: "is_digit ch \<Longrightarrow> escape_byte ch = [ch]"
  by (auto simp: escape_byte_def shouldEscape_def is_digit_def Let_def)

lemma QueryEscape_digits: "\<forall>ch \<in> set s. is_digit ch \<Longrightarrow> QueryEscape s = s"
  by (induction s) (simp_all add: QueryEscape_def escape_byte_digit)

text \<open>A printed integer holds digits and at most a minus sign, which escaping keeps.\<close>

lemma QueryEscape_fmt_d: "QueryEscape (fmt_d i) = fmt_d i"
proof -
  have m: "escape_byte CHR ''-'' = ''-''"
    by (simp add: escape_byte_def shouldEscape_def)
  have "QueryEscape (dec n) = dec n" for n
    by (rule QueryEscape_digits) (rule dec_digits)
  then show ?thesis using m by (simp add: fmt_d_def QueryEscape_def)
qed

lemma QueryEscape_keys:
  "QueryEscape ''pagina'' = ''pagina''"
  "QueryEscape ''tamanhoPagina'' = ''tamanhoPagina''"
  "QueryEscape ''cnpj'' = ''cnpj''"
  "QueryEscape ''uf'' = ''uf''"
  "QueryEscape ''nome'' = ''nome''"
  "QueryEscape ''mesAno'' = ''mesAno''"
  "QueryEscape ''codigoOrgao'' = ''codigoOrgao''"
  "QueryEscape ''dataInicial'' = ''dataInicial''"
  "QueryEscape ''dataFinal'' = ''dataFinal''"
  "QueryEscape ''codigoModalidadeContratacao'' = ''codigoModalidadeContratacao''"
  by (simp_all add: QueryEscape_def escape_byte_def shouldEscape_def)

section \<open>Company identifiers\<close>

lemma is_digit_punct:
  "\<not> is_digit CHR ''.''" "\<not> is_digit CHR ''/''" "\<not> is_digit CHR ''-''"
  by (simp_all add: is_digit_def)

lemma formatCNPJ_14:
  assumes "filter is_digit s = [a, b, c, d, e, f, g, h, i, j, k, l, m, n]"
  shows "formatCNPJ s =
     Inr [a, b, CHR ''.'', c, d, e, CHR ''.'', f, g, h, CHR ''/'', i, j, k, l, CHR ''-'', m, n]"
  using assms by (simp add: formatCNPJ_def slice_def)

lemma length_14:
  "length (ds :: 'a list) = 14 \<Longrightarrow>
     \<exists>a b c d e f g h i j k l m n. ds = [a, b, c, d, e, f, g, h, i, j, k, l, m, n]"
  by (auto simp: length_Suc_conv eval_nat_numeral)

lemma formatCNPJ_not_14:
  "length (filter is_digit s) \<noteq> 14 \<Longrightarrow>
     formatCNPJ s = Inl (Err (''invalid CNPJ: must have 14 digits, got ''
                              @ fmt_d (int (length (filter is_digit s)))))"
  by (simp add: formatCNPJ_def)

lemma GetCNPJ_sent:
  "formatCNPJ s = Inr f \<Longrightarrow>
     fst (GetCNPJ c un s) =
       [\<lparr>req_url = ''https://minhareceita.org/'' @ f,
         req_headers = [(''Accept'', ''application/json'')]\<rparr>]"
  by (simp add: GetCNPJ_def Let_def cnpj_BaseURL_def)

lemma GetCNPJ_invalid: "formatCNPJ s = Inl e \<Longrightarrow> GetCNPJ c un s = ([], Inl e)"
  by (simp add: GetCNPJ_def)

text \<open>
  C3. Stripping every non-digit byte and counting the rest decides the outcome. With
  exactly 14 digits \<open>a b c ... n\<close> left, \<open>formatCNPJ\<close> returns \<open>ab.cde.fgh/ijkl-mn\<close> and
  \<open>GetCNPJ\<close> hands exactly one request to the HTTP stack, whose URL is the base URL, a
  slash and that text. With any other count, \<open>formatCNPJ\<close> and \<open>GetCNPJ\<close> fail with the
  validation error that reports the count, and \<open>GetCNPJ\<close> makes no request.
\<close>

theorem cnpj_normalization_decides:
  "(length (filter is_digit s) = 14 \<longrightarrow>
      (\<exists>a b c d e f g h i j k l m n.
         filter is_digit s = [a, b, c, d, e, f, g, h, i, j, k, l, m, n] \<and>
         formatCNPJ s =
           Inr [a, b, CHR ''.'', c, d, e, CHR ''.'', f, g, h, CHR ''/'', i, j, k, l,
                CHR ''-'', m, n] \<and>
         fst (GetCNPJ hc un s) =
           [\<lparr>req_url = ''https://minhareceita.org/''
                @ [a, b, CHR ''.'', c, d, e, CHR ''.'', f, g, h, CHR ''/'', i, j, k, l,
                   CHR ''-'', m, n],
             req_headers = [(''Accept'', ''application/json'')]\<rparr>]))
   \<and> (length (filter is_digit s) \<noteq> 14 \<longrightarrow>
      formatCNPJ s = Inl (Err (''invalid CNPJ: must have 14 digits, got ''
                               @ fmt_d (int (length (filter is_digit s))))) \<and>
      GetCNPJ hc un s = ([], Inl (Err (''invalid CNPJ: must have 14 digits, got ''
                                      @ fmt_d (int (length (filter is_digit s)))))))"
proof (intro conjI impI)
  assume "length (filter is_digit s) = 14"
  then have "\<exists>a b c d e f g h i j k l m n.
      filter is_digit s = [a, b, c, d, e, f, g, h, i, j, k, l, m, n]"
    by (rule length_14)
  then obtain a b c d e f g h i j k l m n
    where ds: "filter is_digit s = [a, b, c, d, e, f, g, h, i, j, k, l, m, n]"
    by (elim exE)
  have fmt: "formatCNPJ s =
      Inr [a, b, CHR ''.'', c, d, e, CHR ''.'', f, g, h, CHR ''/'', i, j, k, l, CHR ''-'', m, n]"
    by (rule formatCNPJ_14 [OF ds])
  show "\<exists>a b c d e f g h i j k l m n.
         filter is_digit s = [a, b, c, d, e, f, g, h, i, j, k, l, m, n] \<and>
         formatCNPJ s =
           Inr [a, b, CHR ''.'', c, d, e, CHR ''.'', f, g, h, CHR ''/'', i, j, k, l,
                CHR ''-'', m, n] \<and>
         fst (GetCNPJ hc un s) =
           [\<lparr>req_url = ''https://minhareceita.org/''
                @ [a, b, CHR ''.'', c, d, e, CHR ''.'', f, g, h, CHR ''/'', i, j, k, l,
                   CHR ''-'', m, n],
             req_headers = [(''Accept'', ''application/json'')]\<rparr>]"
    using ds fmt GetCNPJ_sent [OF fmt] by blast
next
  assume ne: "length (filter is_digit s) \<noteq> 14"
  show "formatCNPJ s = Inl (Err (''invalid CNPJ: must have 14 digits, got ''
                               @ fmt_d (int (length (filter is_digit s)))))"
    by (rule formatCNPJ_not_14 [OF ne])
  then show "GetCNPJ hc un s = ([], Inl (Err (''invalid CNPJ: must have 14 digits, got ''
                                      @ fmt_d (int (length (filter is_digit s))))))"
    by (rule GetCNPJ_invalid)
qed

theorem cnpj_normalization_decides_witness:
  "length (filter is_digit ''12345678000190'') = 14 \<and>
   formatCNPJ ''12345678000190'' = Inr ''12.345.678/0001-90'' \<and>
   fst (GetCNPJ (\<lambda>_. DoErr []) (\<lambda>_. Inl [] :: string + (unit, unit) CNPJData) ''12345678000190'') =
     [\<lparr>req_url = ''https://minhareceita.org/12.345.678/0001-90'',
       req_headers = [(''Accept'', ''application/json'')]\<rparr>] \<and>
   length (filter is_digit ''1234'') \<noteq> 14 \<and>
   GetCNPJ (\<lambda>_. DoErr []) (\<lambda>_. Inl [] :: string + (unit, unit) CNPJData) ''1234'' =
     ([], Inl (Err ''invalid CNPJ: must have 14 digits, got 4''))"
proof -
  have d1: "filter is_digit ''12345678000190'' = ''12345678000190''"
    by (simp add: is_digit_def)
  have d2: "filter is_digit ''1234'' = ''1234''"
    by (simp add: is_digit_def)
  have n4: "fmt_d 4 = ''4''"
    by (simp add: fmt_d_def dec.simps)
  show ?thesis
    using cnpj_normalization_decides
            [of "''12345678000190''" "\<lambda>_. DoErr []"
                "\<lambda>_. Inl [] :: string + (unit, unit) CNPJData", unfolded d1]
          cnpj_normalization_decides
            [of "''1234''" "\<lambda>_. DoErr []"
                "\<lambda>_. Inl [] :: string + (unit, unit) CNPJData", unfolded d2]
    by (simp add: n4 is_digit_def)
qed

text \<open>
  C10. On every input that holds exactly 14 digits, \<open>formatCNPJ\<close> succeeds, and applied
  to its own result it succeeds again with the same text: the punctuated form is a
  fixed point, so a caller may pass the identifier with or without punctuation.
\<close>

theorem formatCNPJ_idempotent:
  "length (filter is_digit s) = 14 \<Longrightarrow>
     \<exists>f. formatCNPJ s = Inr f \<and> formatCNPJ f = Inr f"
proof -
  assume "length (filter is_digit s) = 14"
  then have "\<exists>a b c d e f g h i j k l m n.
      filter is_digit s = [a, b, c, d, e, f, g, h, i, j, k, l, m, n]"
    by (rule length_14)
  then obtain a b c d e f g h i j k l m n
    where ds: "filter is_digit s = [a, b, c, d, e, f, g, h, i, j, k, l, m, n]"
    by (elim exE)
  let ?f = "[a, b, CHR ''.'', c, d, e, CHR ''.'', f, g, h, CHR ''/'', i, j, k, l, CHR ''-'', m, n]"
  have "\<forall>x \<in> set (filter is_digit s). is_digit x"
    by simp
  then have "filter is_digit ?f = [a, b, c, d, e, f, g, h, i, j, k, l, m, n]"
    unfolding ds by (simp add: is_digit_punct)
  then have "formatCNPJ ?f = Inr ?f"
    by (rule formatCNPJ_14)
  moreover have "formatCNPJ s = Inr ?f"
    by (rule formatCNPJ_14 [OF ds])
  ultimately show ?thesis by blast
qed

theorem formatCNPJ_idempotent_witness:
  "length (filter is_digit ''12345678000190'') = 14 \<and>
   formatCNPJ ''12345678000190'' = Inr ''12.345.678/0001-90'' \<and>
   formatCNPJ ''12.345.678/0001-90'' = Inr ''12.345.678/0001-90''"
proof -
  have h: "length (filter is_digit ''12345678000190'') = 14"
    by (simp add: is_digit_def)
  have v: "formatCNPJ ''12345678000190'' = Inr ''12.345.678/0001-90''"
    by (simp add: formatCNPJ_def slice_def is_digit_def)
  from formatCNPJ_idempotent [OF h] v h show ?thesis by auto
qed


section \<open>Indicator names\<close>

text \<open>
  C4. The table \<open>SeriesCodes\<close> has exactly the five names \<open>selic\<close>, \<open>selic_monthly\<close>,
  \<open>ipca\<close>, \<open>igpm\<close> and \<open>cdi\<close>, with the codes 11, 4390, 433, 189 and 12. For every other
  name \<open>GetIndicator\<close> fails with the validation error that repeats the name and lists the
  five valid ones, and hands no request to the HTTP stack.
\<close>

theorem indicator_lookup:
  "dom SeriesCodes = {''selic'', ''selic_monthly'', ''ipca'', ''igpm'', ''cdi''} \<and>
   SeriesCodes ''selic'' = Some 11 \<and>
   SeriesCodes ''selic_monthly'' = Some 4390 \<and>
   SeriesCodes ''ipca'' = Some 433 \<and>
   SeriesCodes ''igpm'' = Some 189 \<and>
   SeriesCodes ''cdi'' = Some 12 \<and>
   (name \<notin> {''selic'', ''selic_monthly'', ''ipca'', ''igpm'', ''cdi''} \<longrightarrow>
      GetIndicator c un name lastN =
        ([], Inl (Err (''unknown indicator: '' @ name
                       @ ''. Available: selic, selic_monthly, ipca, igpm, cdi''))))"
proof -
  have d: "dom SeriesCodes = {''selic'', ''selic_monthly'', ''ipca'', ''igpm'', ''cdi''}"
    unfolding SeriesCodes_def dom_map_of_conv_image_fst by auto
  have v: "SeriesCodes ''selic'' = Some 11" "SeriesCodes ''selic_monthly'' = Some 4390"
    "SeriesCodes ''ipca'' = Some 433" "SeriesCodes ''igpm'' = Some 189"
    "SeriesCodes ''cdi'' = Some 12"
    by (simp_all add: SeriesCodes_def)
  have u: "GetIndicator c un name lastN =
        ([], Inl (Err (''unknown indicator: '' @ name
                       @ ''. Available: selic, selic_monthly, ipca, igpm, cdi'')))"
    if "name \<notin> {''selic'', ''selic_monthly'', ''ipca'', ''igpm'', ''cdi''}"
  proof -
    from that d have "SeriesCodes name = None" by blast
    then show ?thesis by (simp add: GetIndicator_def)
  qed
  from d v u show ?thesis by blast
qed

theorem indicator_lookup_witness:
  "''dollar'' \<notin> {''selic'', ''selic_monthly'', ''ipca'', ''igpm'', ''cdi''} \<and>
   GetIndicator (\<lambda>_. Resp 200 []) (\<lambda>_. Inr []) ''dollar'' 30 =
     ([], Inl (Err ''unknown indicator: dollar. Available: selic, selic_monthly, ipca, igpm, cdi''))"
  using indicator_lookup [of "''dollar''" "\<lambda>_. Resp 200 []" "\<lambda>_. Inr []" 30]
  by simp

section \<open>Upstream answers\<close>

lemma bcb_doRequest_Resp:
  "\<forall>req. c req = Resp status body \<Longrightarrow>
     snd (bcb_doRequest c url) = (if status \<noteq> 200 then Inl (API_error status body) else Inr body)"
  by (simp add: bcb_doRequest_def Let_def)

lemma ibge_doRequest_Resp:
  "\<forall>req. c req = Resp status body \<Longrightarrow>
     snd (ibge_doRequest c url) = (if status \<noteq> 200 then Inl (API_error status body) else Inr body)"
  by (simp add: ibge_doRequest_def Let_def)

lemma pncp_doRequest_Resp:
  "\<forall>req. c req = Resp status body \<Longrightarrow>
     snd (pncp_doRequest c ep ps) = (if status \<noteq> 200 then Inl (API_error status body) else Inr body)"
  by (simp add: pncp_doRequest_def Let_def)

lemma transparencia_doRequest_Resp:
  "\<forall>req. httpClient tc req = Resp status body \<Longrightarrow>
     snd (transparencia_doRequest tc ep ps) =
       (if status \<noteq> 200 then Inl (API_error status body) else Inr body)"
  by (simp add: transparencia_doRequest_def Let_def)

lemma snd_decode_Inl:
  "snd p = Inl e \<Longrightarrow>
     snd (case p of (sent, Inl err) \<Rightarrow> (sent, Inl err) | (sent, Inr b) \<Rightarrow> g sent b) = Inl e"
  by (cases p) simp

lemma GetCNPJ_Resp:
  "formatCNPJ cnpj = Inr f \<Longrightarrow> \<forall>req. c req = Resp status body \<Longrightarrow>
     snd (GetCNPJ c un cnpj) =
       (if status = 404 then Inl (Err (''CNPJ not found: '' @ f))
        else if status \<noteq> 200 then Inl (API_error status body)
        else (case un body of
                Inl e \<Rightarrow> Inl (Err (''parsing response: '' @ e))
              | Inr data \<Rightarrow> Inr (data\<lparr>CNPJData.Source := ''minhareceita_api''\<rparr>)))"
  by (simp add: GetCNPJ_def Let_def)

text \<open>
  C6. When the identifier is valid and the upstream answers: a status 404 makes
  \<open>GetCNPJ\<close> fail with \<open>CNPJ not found:\<close> and the formatted identifier; every other
  status than 200 makes it fail with the generic error that carries the status and the
  body. The two messages never coincide, whatever status and body the generic one
  carries. The company lookup is the only adapter to do so: the \<open>doRequest\<close> of the
  other four answers a 404 with the generic error.
\<close>

theorem cnpj_not_found_distinct:
  "formatCNPJ cnpj = Inr f \<Longrightarrow> \<forall>req. c req = Resp status body \<Longrightarrow>
     (status = 404 \<longrightarrow> snd (GetCNPJ c un cnpj) = Inl (Err (''CNPJ not found: '' @ f))) \<and>
     (status \<noteq> 404 \<and> status \<noteq> 200 \<longrightarrow>
        snd (GetCNPJ c un cnpj) = Inl (API_error status body)) \<and>
     (\<forall>status' body'. Err (''CNPJ not found: '' @ f) \<noteq> API_error status' body') \<and>
     (status = 404 \<and> httpClient tc = c \<longrightarrow>
        snd (bcb_doRequest c url) = Inl (API_error 404 body) \<and>
        snd (ibge_doRequest c url) = Inl (API_error 404 body) \<and>
        snd (pncp_doRequest c endpoint params) = Inl (API_error 404 body) \<and>
        snd (transparencia_doRequest tc endpoint params) = Inl (API_error 404 body))"
proof (intro conjI impI allI)
  assume f: "formatCNPJ cnpj = Inr f" and r: "\<forall>req. c req = Resp status body"
  {
    assume "status = 404"
    then show "snd (GetCNPJ c un cnpj) = Inl (Err (''CNPJ not found: '' @ f))"
      by (simp add: GetCNPJ_Resp [OF f r])
  next
    assume "status \<noteq> 404 \<and> status \<noteq> 200"
    then show "snd (GetCNPJ c un cnpj) = Inl (API_error status body)"
      by (simp add: GetCNPJ_Resp [OF f r])
  next
    fix status' body'
    show "Err (''CNPJ not found: '' @ f) \<noteq> API_error status' body'"
      by simp
  next
    assume a: "status = 404 \<and> httpClient tc = c"
    then have t: "\<forall>req. httpClient tc req = Resp status body" using r by simp
    from a show "snd (bcb_doRequest c url) = Inl (API_error 404 body)"
      using bcb_doRequest_Resp [OF r] by simp
    from a show "snd (ibge_doRequest c url) = Inl (API_error 404 body)"
      using ibge_doRequest_Resp [OF r] by simp
    from a show "snd (pncp_doRequest c endpoint params) = Inl (API_error 404 body)"
      using pncp_doRequest_Resp [OF r] by simp
    from a show "snd (transparencia_doRequest tc endpoint params) = Inl (API_error 404 body)"
      using transparencia_doRequest_Resp [OF t] by simp
  }
qed

theorem cnpj_not_found_distinct_witness:
  "formatCNPJ ''12345678000190'' = Inr ''12.345.678/0001-90'' \<and>
   snd (GetCNPJ (\<lambda>_. Resp 404 ''{}'') (\<lambda>_. Inl [] :: string + (unit, unit) CNPJData)
          ''12345678000190'') = Inl (Err ''CNPJ not found: 12.345.678/0001-90'') \<and>
   snd (bcb_doRequest (\<lambda>_. Resp 404 ''{}'') []) = Inl (Err ''API error (status 404): {}'') \<and>
   snd (GetCNPJ (\<lambda>_. Resp 503 ''maintenance'') (\<lambda>_. Inl [] :: string + (unit, unit) CNPJData)
          ''12345678000190'') = Inl (Err ''API error (status 503): maintenance'')"
proof -
  have f: "formatCNPJ ''12345678000190'' = Inr ''12.345.678/0001-90''"
    by (simp add: formatCNPJ_def slice_def is_digit_def)
  have r: "\<forall>req. (\<lambda>_. Resp 404 ''{}'') req = Resp 404 ''{}''"
    by simp
  have r': "\<forall>req. (\<lambda>_. Resp 503 ''maintenance'') req = Resp 503 ''maintenance''"
    by simp
  have n: "fmt_d 404 = ''404''" "fmt_d 503 = ''503''"
    by (simp_all add: fmt_d_def dec.simps)
  show ?thesis
    using f cnpj_not_found_distinct
              [OF f r, of "\<lambda>_. Inl [] :: string + (unit, unit) CNPJData"
                 "\<lparr>httpClient = \<lambda>_. Resp 404 ''{}'', apiKey = [], baseURL = []\<rparr>" "[]" "[]" "[]"]
            cnpj_not_found_distinct
              [OF f r', of "\<lambda>_. Inl [] :: string + (unit, unit) CNPJData"
                 "\<lparr>httpClient = \<lambda>_. Resp 404 ''{}'', apiKey = [], baseURL = []\<rparr>" "[]" "[]" "[]"]
    by (simp add: n)
qed

lemma GetIndicator_Resp:
  "SeriesCodes ind \<noteq> None \<Longrightarrow> \<forall>req. c req = Resp status body \<Longrightarrow> status \<noteq> 200 \<Longrightarrow>
     snd (GetIndicator c un ind n) = Inl (API_error status body)"
  by (auto simp: GetIndicator_def Let_def intro!: snd_decode_Inl bcb_doRequest_Resp [THEN trans])

lemma GetExchangeRate_Resp:
  "\<forall>req. c req = Resp status body \<Longrightarrow> status \<noteq> 200 \<Longrightarrow>
     snd (GetExchangeRate c un today cur d) = Inl (API_error status body)"
  unfolding GetExchangeRate_def Let_def
  by (rule snd_decode_Inl) (simp add: bcb_doRequest_Resp)

lemma GetPIXStats_Resp:
  "\<forall>req. c req = Resp status body \<Longrightarrow> status \<noteq> 200 \<Longrightarrow>
     snd (GetPIXStats c un) = Inl (API_error status body)"
  unfolding GetPIXStats_def Let_def
  by (rule snd_decode_Inl) (simp add: bcb_doRequest_Resp)

lemma GetStates_Resp:
  "\<forall>req. c req = Resp status body \<Longrightarrow> status \<noteq> 200 \<Longrightarrow>
     snd (GetStates c un) = Inl (API_error status body)"
  unfolding GetStates_def Let_def
  by (rule snd_decode_Inl) (simp add: ibge_doRequest_Resp)

lemma GetMunicipalities_Resp:
  "\<forall>req. c req = Resp status body \<Longrightarrow> status \<noteq> 200 \<Longrightarrow>
     snd (GetMunicipalities c un sid) = Inl (API_error status body)"
  unfolding GetMunicipalities_def Let_def
  by (rule snd_decode_Inl) (simp add: ibge_doRequest_Resp)

lemma GetPopulation_Resp:
  "\<forall>req. c req = Resp status body \<Longrightarrow> status \<noteq> 200 \<Longrightarrow>
     snd (GetPopulation c un fv loc) = Inl (API_error status body)"
  unfolding GetPopulation_def Let_def
  by (rule snd_decode_Inl) (simp add: ibge_doRequest_Resp)

lemma pncp_SearchContracts_Resp:
  "\<forall>req. c req = Resp status body \<Longrightarrow> status \<noteq> 200 \<Longrightarrow>
     snd (pncp_SearchContracts c un sd ed mc st p ps) = Inl (API_error status body)"
  unfolding pncp_SearchContracts_def Let_def
  by (rule snd_decode_Inl) (simp add: pncp_doRequest_Resp)

lemma SearchPriceRegistrations_Resp:
  "\<forall>req. c req = Resp status body \<Longrightarrow> status \<noteq> 200 \<Longrightarrow>
     snd (SearchPriceRegistrations c un st p ps) = Inl (API_error status body)"
  unfolding SearchPriceRegistrations_def Let_def
  by (rule snd_decode_Inl) (simp add: pncp_doRequest_Resp)

lemma transparencia_SearchContracts_Resp:
  "\<forall>req. httpClient tc req = Resp status body \<Longrightarrow> status \<noteq> 200 \<Longrightarrow>
     snd (transparencia_SearchContracts tc un oc p ps) = Inl (API_error status body)"
  unfolding transparencia_SearchContracts_def Let_def
  by (rule snd_decode_Inl) (simp add: transparencia_doRequest_Resp)

lemma SearchServidores_Resp:
  "nome \<noteq> [] \<Longrightarrow> \<forall>req. httpClient tc req = Resp status body \<Longrightarrow> status \<noteq> 200 \<Longrightarrow>
     snd (SearchServidores tc un nome p ps) = Inl (API_error status body)"
  unfolding SearchServidores_def Let_def
  by (simp only: if_False) (rule snd_decode_Inl, simp add: transparencia_doRequest_Resp)

lemma GetServidorRemuneracao_Resp:
  "cpf \<noteq> [] \<Longrightarrow> \<forall>req. httpClient tc req = Resp status body \<Longrightarrow> status \<noteq> 200 \<Longrightarrow>
     snd (GetServidorRemuneracao tc un lm cpf ma) = Inl (API_error status body)"
  unfolding GetServidorRemuneracao_def Let_def
  by (simp only: if_False) (rule snd_decode_Inl, simp add: transparencia_doRequest_Resp)

lemma SearchConvenios_Resp:
  "\<forall>req. httpClient tc req = Resp status body \<Longrightarrow> status \<noteq> 200 \<Longrightarrow>
     snd (SearchConvenios tc un uf p ps) = Inl (API_error status body)"
  unfolding SearchConvenios_def Let_def
  by (rule snd_decode_Inl) (simp add: transparencia_doRequest_Resp)

lemma SearchCEIS_Resp:
  "\<forall>req. httpClient tc req = Resp status body \<Longrightarrow> status \<noteq> 200 \<Longrightarrow>
     snd (SearchCEIS tc un cnpj p ps) = Inl (API_error status body)"
  unfolding SearchCEIS_def Let_def
  by (rule snd_decode_Inl) (simp add: transparencia_doRequest_Resp)

text \<open>
  C5, as the code has it. When the upstream answers with a status other than 200 (all
  statuses outside 2xx are such), every operation that reaches the upstream fails, and
  its error is \<open>API error (status\<close> \<open>n\<close>\<open>):\<close> followed by the body, where \<open>n\<close> is the
  status in decimal. The one exception is \<open>GetCNPJ\<close> at status 404. An operation reaches
  the upstream unless it rejects its input first: an indicator name outside the table,
  an empty \<open>nome\<close> or \<open>cpf\<close>, an identifier without 14 digits.
\<close>

theorem upstream_error_surfaced:
  assumes "status \<noteq> 200"
    and "\<forall>req. c req = Resp status body"
    and "\<forall>req. httpClient tc req = Resp status body"
  shows
   "(SeriesCodes ind \<noteq> None \<longrightarrow> snd (GetIndicator c un1 ind n) = Inl (API_error status body)) \<and>
    snd (GetSELIC c un1 n) = Inl (API_error status body) \<and>
    snd (GetIPCA c un1 n) = Inl (API_error status body) \<and>
    snd (GetExchangeRate c un2 today cur d) = Inl (API_error status body) \<and>
    snd (GetPIXStats c un3 :: request list \<times> (error + ('f::zero, 'j) PIXResponse)) =
      Inl (API_error status body) \<and>
    snd (GetStates c un4) = Inl (API_error status body) \<and>
    snd (GetMunicipalities c un5 sid) = Inl (API_error status body) \<and>
    snd (GetPopulation c un6 fv loc) = Inl (API_error status body) \<and>
    (status \<noteq> 404 \<and> length (filter is_digit cnpj) = 14 \<longrightarrow>
       snd (GetCNPJ c un7 cnpj) = Inl (API_error status body)) \<and>
    snd (pncp_SearchContracts c un8 sd ed mc st p ps) = Inl (API_error status body) \<and>
    snd (SearchPriceRegistrations c un9 st p ps) = Inl (API_error status body) \<and>
    snd (transparencia_SearchContracts tc un10 oc p ps) = Inl (API_error status body) \<and>
    (nome \<noteq> [] \<longrightarrow> snd (SearchServidores tc un11 nome p ps) = Inl (API_error status body)) \<and>
    (cpf \<noteq> [] \<longrightarrow>
       snd (GetServidorRemuneracao tc un12 lm cpf ma) = Inl (API_error status body)) \<and>
    snd (SearchConvenios tc un13 uf p ps) = Inl (API_error status body) \<and>
    snd (SearchCEIS tc un14 cn p ps) = Inl (API_error status body)"
proof -
  note a = assms(2) assms(1)
  note t = assms(3) assms(1)
  have selic: "SeriesCodes ''selic'' \<noteq> None" and ipca: "SeriesCodes ''ipca'' \<noteq> None"
    by (simp_all add: SeriesCodes_def)
  have cnpj: "snd (GetCNPJ c un7 cnpj) = Inl (API_error status body)"
    if "status \<noteq> 404 \<and> length (filter is_digit cnpj) = 14"
  proof -
    from that have "\<exists>f. formatCNPJ cnpj = Inr f" by (simp add: formatCNPJ_def Let_def)
    then obtain f where "formatCNPJ cnpj = Inr f" ..
    from GetCNPJ_Resp [OF this assms(2)] that assms(1) show ?thesis by simp
  qed
  show ?thesis
    unfolding GetSELIC_def GetIPCA_def
    using cnpj
    by (intro conjI impI)
       (simp_all add: GetIndicator_Resp [OF _ a] selic ipca GetExchangeRate_Resp [OF a]
          GetPIXStats_Resp [OF a] GetStates_Resp [OF a] GetMunicipalities_Resp [OF a]
          GetPopulation_Resp [OF a] pncp_SearchContracts_Resp [OF a]
          SearchPriceRegistrations_Resp [OF a] transparencia_SearchContracts_Resp [OF t]
          SearchServidores_Resp [OF _ t] GetServidorRemuneracao_Resp [OF _ t]
          SearchConvenios_Resp [OF t] SearchCEIS_Resp [OF t])
qed

theorem upstream_error_surfaced_witness:
  "(503::int) \<noteq> 200 \<and>
   (\<forall>req. (\<lambda>_. Resp 503 ''maintenance'') (req::request) = Resp 503 ''maintenance'') \<and>
   SeriesCodes ''selic'' \<noteq> None \<and>
   snd (GetIndicator (\<lambda>_. Resp 503 ''maintenance'') (\<lambda>_. Inr []) ''selic'' 30) =
     Inl (Err ''API error (status 503): maintenance'') \<and>
   snd (GetStates (\<lambda>_. Resp 503 ''maintenance'') (\<lambda>_. Inr [] :: string + unit list)) =
     Inl (Err ''API error (status 503): maintenance'') \<and>
   length (filter is_digit ''12.345.678/0001-90'') = 14 \<and>
   snd (GetCNPJ (\<lambda>_. Resp 503 ''maintenance'') (\<lambda>_. Inl [] :: string + (unit, unit) CNPJData)
          ''12.345.678/0001-90'') =
     Inl (Err ''API error (status 503): maintenance'') \<and>
   snd (pncp_SearchContracts (\<lambda>_. Resp 503 ''maintenance'')
          (\<lambda>_. Inl [] :: string + unit contracts_result) ''20240101'' ''20240131'' 0 ''SP'' 1 50) =
     Inl (Err ''API error (status 503): maintenance'') \<and>
   snd (SearchServidores (NewClient (\<lambda>_. Resp 503 ''maintenance'') ''key'')
          (\<lambda>_. Inr [] :: string + unit list) ''maria'' 1 50) =
     Inl (Err ''API error (status 503): maintenance'') \<and>
   snd (GetServidorRemuneracao (NewClient (\<lambda>_. Resp 503 ''maintenance'') ''key'')
          (\<lambda>_. Inr [] :: string + unit list) ''09/2026'' ''12345678901'' []) =
     Inl (Err ''API error (status 503): maintenance'')"
proof -
  have n: "fmt_d 503 = ''503''"
    by (simp add: fmt_d_def dec.simps)
  show ?thesis
    using upstream_error_surfaced
      [where ?'f = int and status = 503 and body = "''maintenance''"
         and c = "\<lambda>_. Resp 503 ''maintenance''"
         and tc = "NewClient (\<lambda>_. Resp 503 ''maintenance'') ''key''"
         and ind = "''selic''" and n = 30 and ?un1.0 = "\<lambda>_. Inr []"
         and ?un4.0 = "\<lambda>_. Inr [] :: string + unit list"
         and cnpj = "''12.345.678/0001-90''"
         and ?un7.0 = "\<lambda>_. Inl [] :: string + (unit, unit) CNPJData"
         and ?un8.0 = "\<lambda>_. Inl [] :: string + unit contracts_result"
         and sd = "''20240101''" and ed = "''20240131''" and mc = 0 and st = "''SP''"
         and p = 1 and ps = 50
         and nome = "''maria''" and ?un11.0 = "\<lambda>_. Inr [] :: string + unit list"
         and cpf = "''12345678901''" and lm = "''09/2026''" and ma = "[]"
         and ?un12.0 = "\<lambda>_. Inr [] :: string + unit list"
         and ?un2.0 = "\<lambda>_. Inl [] :: string + unit exchange_result"
         and today = "[]" and cur = "[]" and d = "[]"
         and ?un3.0 = "\<lambda>_. Inl [] :: string + unit"
         and ?un5.0 = "\<lambda>_. Inl [] :: string + unit list" and sid = "[]"
         and ?un6.0 = "\<lambda>_. Inl [] :: string + (string \<times> unit json) list list"
         and fv = "\<lambda>_. []" and loc = "[]"
         and ?un9.0 = "\<lambda>_. Inl [] :: string + unit registrations_result"
         and ?un10.0 = "\<lambda>_. Inl [] :: string + unit list" and oc = "[]"
         and ?un13.0 = "\<lambda>_. Inl [] :: string + unit list" and uf = "[]"
         and ?un14.0 = "\<lambda>_. Inl [] :: string + unit list" and cn = "[]"]
    by (simp add: n NewClient_def SeriesCodes_def is_digit_def)
qed

text \<open>
  C5 as stated fails at the company lookup: on status 404 with body \<open>maintenance\<close> the
  error of \<open>GetCNPJ\<close> holds neither the status nor the body.
\<close>

theorem upstream_error_counterexample:
  "snd (GetCNPJ (\<lambda>_. Resp 404 ''maintenance'') (\<lambda>_. Inl [] :: string + (unit, unit) CNPJData)
          ''12345678000190'') = Inl (Err ''CNPJ not found: 12.345.678/0001-90'') \<and>
   \<not> sublist ''404'' ''CNPJ not found: 12.345.678/0001-90'' \<and>
   \<not> sublist ''maintenance'' ''CNPJ not found: 12.345.678/0001-90''"
  by (simp add: GetCNPJ_def Let_def formatCNPJ_def slice_def is_digit_def sublist_Cons_right)


section \<open>Response envelopes\<close>

text \<open>What a successful call of each operation has put in the fields of its envelope.\<close>

lemma GetCNPJ_envelope:
  "snd (GetCNPJ c un cnpj) = Inr r \<Longrightarrow> CNPJData.Source r = ''minhareceita_api''"
  by (auto simp: GetCNPJ_def Let_def split: sum.splits net_result.splits if_splits)

lemma GetIndicator_envelope:
  "snd (GetIndicator c un ind n) = Inr r \<Longrightarrow>
     IndicatorResponse.Source r = ''bcb_api'' \<and>
     IndicatorResponse.Total r = int (length (IndicatorResponse.Data r))"
  by (auto simp: GetIndicator_def Let_def split: option.splits prod.splits sum.splits)

lemma GetExchangeRate_envelope:
  "snd (GetExchangeRate c un today cur d) = Inr r \<Longrightarrow>
     ExchangeRateResponse.Source r = ''bcb_api''"
  by (auto simp: GetExchangeRate_def Let_def split: prod.splits sum.splits)

lemma GetPIXStats_envelope:
  "snd (GetPIXStats c un) = Inr r \<Longrightarrow> PIXResponse.Source r = ''bcb_api''"
  by (auto simp: GetPIXStats_def Let_def split: prod.splits sum.splits)

lemma GetStates_envelope:
  "snd (GetStates c un) = Inr r \<Longrightarrow>
     StatesResponse.Source r = ''ibge_api'' \<and>
     StatesResponse.Total r = int (length (States r))"
  by (auto simp: GetStates_def Let_def split: prod.splits sum.splits)

lemma GetMunicipalities_envelope:
  "snd (GetMunicipalities c un sid) = Inr r \<Longrightarrow>
     MunicipalitiesResponse.Source r = ''ibge_api'' \<and>
     MunicipalitiesResponse.Total r = int (length (Municipalities r))"
  by (auto simp: GetMunicipalities_def Let_def split: prod.splits sum.splits)

lemma GetPopulation_envelope:
  "snd (GetPopulation c un fv loc) = Inr r \<Longrightarrow> PopulationResponse.Source r = ''ibge_api''"
  by (auto simp: GetPopulation_def Let_def split: prod.splits sum.splits)

lemma pncp_SearchContracts_envelope:
  "snd (pncp_SearchContracts c un sd ed mc st p ps) = Inr r \<Longrightarrow>
     pncp_ContractsResponse.Source r = ''pncp_api'' \<and>
     pncp_ContractsResponse.PageSize r = max 10 (min 500 ps)"
  by (auto simp: pncp_SearchContracts_def Let_def split: prod.splits sum.splits)




lemma SearchPriceRegistrations_envelope:
  "snd (SearchPriceRegistrations c un st p ps) = Inr r \<Longrightarrow>
     PriceRegistrationsResponse.Source r = ''pncp_api'' \<and>
     PriceRegistrationsResponse.Total r = int (length (Registrations r))"
  by (auto simp: SearchPriceRegistrations_def Let_def split: prod.splits sum.splits)

lemma transparencia_SearchContracts_envelope:
  "snd (transparencia_SearchContracts tc un oc p ps) = Inr r \<Longrightarrow>
     transparencia_ContractsResponse.Source r = ''portal_transparencia_api'' \<and>
     transparencia_ContractsResponse.Total r =
       int (length (transparencia_ContractsResponse.Contracts r)) \<and>
     transparencia_ContractsResponse.PageSize r = (if ps < 1 \<or> 500 < ps then 100 else ps)"
  by (auto simp: transparencia_SearchContracts_def Let_def split: prod.splits sum.splits)

lemma SearchServidores_envelope:
  "snd (SearchServidores tc un nome p ps) = Inr r \<Longrightarrow>
     ServidoresResponse.Source r = ''portal_transparencia_api'' \<and>
     ServidoresResponse.Total r = int (length (Servidores r)) \<and>
     ServidoresResponse.PageSize r = (if ps < 1 \<or> 500 < ps then 100 else ps)"
  by (auto simp: SearchServidores_def Let_def split: prod.splits sum.splits if_splits)

lemma GetServidorRemuneracao_envelope:
  "snd (GetServidorRemuneracao tc un lm cpf ma) = Inr r \<Longrightarrow>
     RemuneracaoResponse.Source r = ''portal_transparencia_api''"
  by (auto simp: GetServidorRemuneracao_def Let_def split: prod.splits sum.splits if_splits)

lemma SearchConvenios_envelope:
  "snd (SearchConvenios tc un uf p ps) = Inr r \<Longrightarrow>
     ConveniosResponse.Source r = ''portal_transparencia_api'' \<and>
     ConveniosResponse.Total r = int (length (Convenios r)) \<and>
     ConveniosResponse.PageSize r = (if ps < 1 \<or> 500 < ps then 100 else ps)"
  by (auto simp: SearchConvenios_def Let_def split: prod.splits sum.splits)

lemma SearchCEIS_envelope:
  "snd (SearchCEIS tc un cnpj p ps) = Inr r \<Longrightarrow>
     CEISResponse.Source r = ''portal_transparencia_api'' \<and>
     CEISResponse.Total r = int (length (Empresas r)) \<and>
     CEISResponse.PageSize r = (if ps < 1 \<or> 500 < ps then 100 else ps)"
  by (auto simp: SearchCEIS_def Let_def split: prod.splits sum.splits)

text \<open>
  A successful run of each operation against an upstream that answers 200, the decoder
  returning an empty result: the envelopes used as instances below.
\<close>

lemma GetIndicator_run:
  "snd (GetIndicator (\<lambda>_. Resp 200 ''[]'') (\<lambda>_. Inr []) ''selic'' 30) =
     Inr \<lparr>IndicatorResponse.Indicator = ''selic'', IndicatorResponse.Data = [],
          IndicatorResponse.Total = 0, IndicatorResponse.Source = ''bcb_api''\<rparr>"
  by (simp add: GetIndicator_def SeriesCodes_def bcb_doRequest_def Let_def)

lemma GetStates_run:
  "snd (GetStates (\<lambda>_. Resp 200 ''[]'') (\<lambda>_. Inr [])) =
     Inr \<lparr>StatesResponse.States = [], StatesResponse.Total = 0,
          StatesResponse.Source = ''ibge_api''\<rparr>"
  by (simp add: GetStates_def ibge_doRequest_def Let_def)

lemma GetMunicipalities_run:
  "snd (GetMunicipalities (\<lambda>_. Resp 200 ''[]'') (\<lambda>_. Inr []) ''33'') =
     Inr \<lparr>MunicipalitiesResponse.Municipalities = [], MunicipalitiesResponse.Total = 0,
          MunicipalitiesResponse.StateID = ''33'',
          MunicipalitiesResponse.Source = ''ibge_api''\<rparr>"
  by (simp add: GetMunicipalities_def ibge_doRequest_def Let_def)

lemma GetPopulation_run:
  "snd (GetPopulation (\<lambda>_. Resp 200 ''[]'') (\<lambda>_. Inr []) (\<lambda>_. []) []) =
     Inr \<lparr>PopulationResponse.Data = [], PopulationResponse.Source = ''ibge_api''\<rparr>"
  by (simp add: GetPopulation_def ibge_doRequest_def extract_population_def Let_def)

lemma GetExchangeRate_run:
  "snd (GetExchangeRate (\<lambda>_. Resp 200 ''[]'') (\<lambda>_. Inr \<lparr>exchange_result.Value = []\<rparr>)
          ''10-31-2026'' [] []) =
     Inr \<lparr>ExchangeRateResponse.Currency = ''USD'', ExchangeRateResponse.Date = ''10-31-2026'',
          ExchangeRateResponse.Rates = [], ExchangeRateResponse.Source = ''bcb_api''\<rparr>"
  by (simp add: GetExchangeRate_def bcb_doRequest_def Let_def)

lemma GetPIXStats_run:
  "snd (GetPIXStats (\<lambda>_. Resp 200 ''[]'') (\<lambda>_. Inr ())) =
     Inr \<lparr>PIXResponse.Stats = \<lparr>PIXStats.TotalTransactions = 0, PIXStats.TotalValue = (0::int),
                                PIXStats.Data = ()\<rparr>,
          PIXResponse.Source = ''bcb_api''\<rparr>"
  by (simp add: GetPIXStats_def bcb_doRequest_def Let_def)

lemma pncp_SearchContracts_run:
  "snd (pncp_SearchContracts (\<lambda>_. Resp 200 ''[]'')
          (\<lambda>_. Inr \<lparr>contracts_result.Data = [], TotalRegistros = 1234\<rparr>)
          ''20240101'' ''20240131'' 0 [] 1 50) =
     Inr \<lparr>pncp_ContractsResponse.Contracts = [], pncp_ContractsResponse.Total = 1234,
          pncp_ContractsResponse.Page = 1, pncp_ContractsResponse.PageSize = 50,
          pncp_ContractsResponse.Source = ''pncp_api''\<rparr>"
  by (simp add: pncp_SearchContracts_def pncp_doRequest_def Let_def)

lemma SearchPriceRegistrations_run:
  "snd (SearchPriceRegistrations (\<lambda>_. Resp 200 ''[]'')
          (\<lambda>_. Inr \<lparr>registrations_result.Data = []\<rparr>) [] 1 50) =
     Inr \<lparr>PriceRegistrationsResponse.Registrations = [],
          PriceRegistrationsResponse.Total = 0, PriceRegistrationsResponse.Page = 1,
          PriceRegistrationsResponse.Source = ''pncp_api''\<rparr>"
  by (simp add: SearchPriceRegistrations_def pncp_doRequest_def Let_def)

lemma transparencia_SearchContracts_run:
  "snd (transparencia_SearchContracts (NewClient (\<lambda>_. Resp 200 ''[]'') ''key'')
          (\<lambda>_. Inr []) ''99999'' 1 50) =
     Inr \<lparr>transparencia_ContractsResponse.Contracts = [],
          transparencia_ContractsResponse.Total = 0,
          transparencia_ContractsResponse.Page = 1,
          transparencia_ContractsResponse.PageSize = 50,
          transparencia_ContractsResponse.OrgaoCode = ''99999'',
          transparencia_ContractsResponse.OrgaoName = ''Orgao Desconhecido'',
          transparencia_ContractsResponse.Source = ''portal_transparencia_api''\<rparr>"
  by (simp add: transparencia_SearchContracts_def transparencia_doRequest_def NewClient_def
        KnownOrgaos_def KnownOrgaos_list_def Let_def)

lemma SearchServidores_run:
  "snd (SearchServidores (NewClient (\<lambda>_. Resp 200 ''[]'') ''key'') (\<lambda>_. Inr [])
          ''maria'' 1 50) =
     Inr \<lparr>ServidoresResponse.Servidores = [], ServidoresResponse.Total = 0,
          ServidoresResponse.Page = 1, ServidoresResponse.PageSize = 50,
          ServidoresResponse.Source = ''portal_transparencia_api''\<rparr>"
  by (simp add: SearchServidores_def transparencia_doRequest_def NewClient_def Let_def)

lemma GetServidorRemuneracao_run:
  "snd (GetServidorRemuneracao (NewClient (\<lambda>_. Resp 200 ''[]'') ''key'') (\<lambda>_. Inr [])
          ''09/2026'' ''12345678901'' []) =
     Inr \<lparr>RemuneracaoResponse.CPF = ''12345678901'', RemuneracaoResponse.Remuneracao = [],
          RemuneracaoResponse.MesAno = ''09/2026'',
          RemuneracaoResponse.Source = ''portal_transparencia_api''\<rparr>"
  by (simp add: GetServidorRemuneracao_def transparencia_doRequest_def NewClient_def Let_def)

lemma SearchConvenios_run:
  "snd (SearchConvenios (NewClient (\<lambda>_. Resp 200 ''[]'') ''key'') (\<lambda>_. Inr []) [] 1 50) =
     Inr \<lparr>ConveniosResponse.Convenios = [], ConveniosResponse.Total = 0,
          ConveniosResponse.Page = 1, ConveniosResponse.PageSize = 50,
          ConveniosResponse.UF = ''MG'',
          ConveniosResponse.Source = ''portal_transparencia_api''\<rparr>"
  by (simp add: SearchConvenios_def transparencia_doRequest_def NewClient_def Let_def)

lemma SearchCEIS_run:
  "snd (SearchCEIS (NewClient (\<lambda>_. Resp 200 ''[]'') ''key'') (\<lambda>_. Inr []) [] 1 50) =
     Inr \<lparr>CEISResponse.Empresas = [], CEISResponse.Total = 0,
          CEISResponse.Page = 1, CEISResponse.PageSize = 50,
          CEISResponse.Source = ''portal_transparencia_api''\<rparr>"
  by (simp add: SearchCEIS_def transparencia_doRequest_def NewClient_def Let_def)

lemma GetCNPJ_run:
  "snd (GetCNPJ (\<lambda>_. Resp 200 ''[]'') (\<lambda>_. Inr blank_CNPJData) ''12345678000190'') =
     Inr (blank_CNPJData\<lparr>CNPJData.Source := ''minhareceita_api''\<rparr>)"
  by (simp add: GetCNPJ_def formatCNPJ_def slice_def is_digit_def Let_def)

lemma GetSELIC_run:
  "snd (GetSELIC (\<lambda>_. Resp 200 ''[]'') (\<lambda>_. Inr []) 30) =
     Inr \<lparr>IndicatorResponse.Indicator = ''selic'', IndicatorResponse.Data = [],
          IndicatorResponse.Total = 0, IndicatorResponse.Source = ''bcb_api''\<rparr>"
  by (simp add: GetSELIC_def GetIndicator_run)

lemma GetIPCA_run:
  "snd (GetIPCA (\<lambda>_. Resp 200 ''[]'') (\<lambda>_. Inr []) 30) =
     Inr \<lparr>IndicatorResponse.Indicator = ''ipca'', IndicatorResponse.Data = [],
          IndicatorResponse.Total = 0, IndicatorResponse.Source = ''bcb_api''\<rparr>"
  by (simp add: GetIPCA_def GetIndicator_def SeriesCodes_def bcb_doRequest_def Let_def)

text \<open>
  C9. Whenever an operation succeeds, the \<open>Source\<close> field of its envelope is the tag of
  its adapter: \<open>portal_transparencia_api\<close> for the five operations of package
  transparencia, \<open>ibge_api\<close> for the three of package ibge, \<open>minhareceita_api\<close> for the
  company lookup, \<open>bcb_api\<close> for the five of package bcb and \<open>pncp_api\<close> for the two
  searches of package pncp. \<open>ListOrgaos\<close> and \<open>ListModalities\<close> return a table, not an
  envelope.
\<close>

theorem source_tag_constant:
  "(\<forall>r. snd (transparencia_SearchContracts tc un1 oc p ps) = Inr r \<longrightarrow> transparencia_ContractsResponse.Source r = ''portal_transparencia_api'') \<and>
   (\<forall>r. snd (SearchServidores tc un2 nome p ps) = Inr r \<longrightarrow> ServidoresResponse.Source r = ''portal_transparencia_api'') \<and>
   (\<forall>r. snd (GetServidorRemuneracao tc un3 lm cpf ma) = Inr r \<longrightarrow> RemuneracaoResponse.Source r = ''portal_transparencia_api'') \<and>
   (\<forall>r. snd (SearchConvenios tc un4 uf p ps) = Inr r \<longrightarrow> ConveniosResponse.Source r = ''portal_transparencia_api'') \<and>
   (\<forall>r. snd (SearchCEIS tc un5 cn p ps) = Inr r \<longrightarrow> CEISResponse.Source r = ''portal_transparencia_api'') \<and>
   (\<forall>r. snd (GetStates c un6) = Inr r \<longrightarrow> StatesResponse.Source r = ''ibge_api'') \<and>
   (\<forall>r. snd (GetMunicipalities c un7 sid) = Inr r \<longrightarrow> MunicipalitiesResponse.Source r = ''ibge_api'') \<and>
   (\<forall>r. snd (GetPopulation c un8 fv loc) = Inr r \<longrightarrow> PopulationResponse.Source r = ''ibge_api'') \<and>
   (\<forall>r. snd (GetCNPJ c un9 cnpj) = Inr r \<longrightarrow> CNPJData.Source r = ''minhareceita_api'') \<and>
   (\<forall>r. snd (GetIndicator c un10 ind n) = Inr r \<longrightarrow> IndicatorResponse.Source r = ''bcb_api'') \<and>
   (\<forall>r. snd (GetSELIC c un10 n) = Inr r \<longrightarrow> IndicatorResponse.Source r = ''bcb_api'') \<and>
   (\<forall>r. snd (GetIPCA c un10 n) = Inr r \<longrightarrow> IndicatorResponse.Source r = ''bcb_api'') \<and>
   (\<forall>r. snd (GetExchangeRate c un11 today cur d) = Inr r \<longrightarrow> ExchangeRateResponse.Source r = ''bcb_api'') \<and>
   (\<forall>(r :: ('f::zero, 'j) PIXResponse). snd (GetPIXStats c un12) = Inr r \<longrightarrow> PIXResponse.Source r = ''bcb_api'') \<and>
   (\<forall>r. snd (pncp_SearchContracts c un13 sd ed mc st p ps) = Inr r \<longrightarrow> pncp_ContractsResponse.Source r = ''pncp_api'') \<and>
   (\<forall>r. snd (SearchPriceRegistrations c un14 st p ps) = Inr r \<longrightarrow> PriceRegistrationsResponse.Source r = ''pncp_api'')"
  unfolding GetSELIC_def GetIPCA_def
  by (intro conjI allI impI)
     (simp_all add: transparencia_SearchContracts_envelope SearchServidores_envelope
        GetServidorRemuneracao_envelope SearchConvenios_envelope SearchCEIS_envelope
        GetStates_envelope GetMunicipalities_envelope GetPopulation_envelope GetCNPJ_envelope
        GetIndicator_envelope GetExchangeRate_envelope GetPIXStats_envelope
        pncp_SearchContracts_envelope SearchPriceRegistrations_envelope)

theorem source_tag_constant_witness:
  "(\<exists>r. snd (transparencia_SearchContracts (NewClient (\<lambda>_. Resp 200 ''[]'') ''key'') (\<lambda>_. Inr [] :: string + unit list) ''99999'' 1 50) = Inr r \<and> transparencia_ContractsResponse.Source r = ''portal_transparencia_api'') \<and>
   (\<exists>r. snd (SearchServidores (NewClient (\<lambda>_. Resp 200 ''[]'') ''key'') (\<lambda>_. Inr [] :: string + unit list) ''maria'' 1 50) = Inr r \<and> ServidoresResponse.Source r = ''portal_transparencia_api'') \<and>
   (\<exists>r. snd (GetServidorRemuneracao (NewClient (\<lambda>_. Resp 200 ''[]'') ''key'') (\<lambda>_. Inr [] :: string + unit list) ''09/2026'' ''12345678901'' []) = Inr r \<and> RemuneracaoResponse.Source r = ''portal_transparencia_api'') \<and>
   (\<exists>r. snd (SearchConvenios (NewClient (\<lambda>_. Resp 200 ''[]'') ''key'') (\<lambda>_. Inr [] :: string + unit list) [] 1 50) = Inr r \<and> ConveniosResponse.Source r = ''portal_transparencia_api'') \<and>
   (\<exists>r. snd (SearchCEIS (NewClient (\<lambda>_. Resp 200 ''[]'') ''key'') (\<lambda>_. Inr [] :: string + unit list) [] 1 50) = Inr r \<and> CEISResponse.Source r = ''portal_transparencia_api'') \<and>
   (\<exists>r. snd (GetStates (\<lambda>_. Resp 200 ''[]'') (\<lambda>_. Inr [] :: string + unit list)) = Inr r \<and> StatesResponse.Source r = ''ibge_api'') \<and>
   (\<exists>r. snd (GetMunicipalities (\<lambda>_. Resp 200 ''[]'') (\<lambda>_. Inr [] :: string + unit list) ''33'') = Inr r \<and> MunicipalitiesResponse.Source r = ''ibge_api'') \<and>
   (\<exists>r. snd (GetPopulation (\<lambda>_. Resp 200 ''[]'') (\<lambda>_. Inr [] :: string + (string \<times> unit json) list list) (\<lambda>_. []) []) = Inr r \<and> PopulationResponse.Source r = ''ibge_api'') \<and>
   (\<exists>r. snd (GetCNPJ (\<lambda>_. Resp 200 ''[]'') (\<lambda>_. Inr blank_CNPJData) ''12345678000190'') = Inr r \<and> CNPJData.Source r = ''minhareceita_api'') \<and>
   (\<exists>r. snd (GetIndicator (\<lambda>_. Resp 200 ''[]'') (\<lambda>_. Inr []) ''selic'' 30) = Inr r \<and> IndicatorResponse.Source r = ''bcb_api'') \<and>
   (\<exists>r. snd (GetSELIC (\<lambda>_. Resp 200 ''[]'') (\<lambda>_. Inr []) 30) = Inr r \<and> IndicatorResponse.Source r = ''bcb_api'') \<and>
   (\<exists>r. snd (GetIPCA (\<lambda>_. Resp 200 ''[]'') (\<lambda>_. Inr []) 30) = Inr r \<and> IndicatorResponse.Source r = ''bcb_api'') \<and>
   (\<exists>r. snd (GetExchangeRate (\<lambda>_. Resp 200 ''[]'') (\<lambda>_. Inr \<lparr>exchange_result.Value = [] :: unit list\<rparr>) ''10-31-2026'' [] []) = Inr r \<and> ExchangeRateResponse.Source r = ''bcb_api'') \<and>
   (\<exists>r. snd (GetPIXStats (\<lambda>_. Resp 200 ''[]'') (\<lambda>_. Inr ()) :: request list \<times> (error + (int, unit) PIXResponse)) = Inr r \<and> PIXResponse.Source r = ''bcb_api'') \<and>
   (\<exists>r. snd (pncp_SearchContracts (\<lambda>_. Resp 200 ''[]'') (\<lambda>_. Inr \<lparr>contracts_result.Data = [] :: unit list, TotalRegistros = 1234\<rparr>) ''20240101'' ''20240131'' 0 [] 1 50) = Inr r \<and> pncp_ContractsResponse.Source r = ''pncp_api'') \<and>
   (\<exists>r. snd (SearchPriceRegistrations (\<lambda>_. Resp 200 ''[]'') (\<lambda>_. Inr \<lparr>registrations_result.Data = [] :: unit list\<rparr>) [] 1 50) = Inr r \<and> PriceRegistrationsResponse.Source r = ''pncp_api'')"
  using source_tag_constant
      [where ?'f = int
         and c = "\<lambda>_. Resp 200 ''[]''"
         and tc = "NewClient (\<lambda>_. Resp 200 ''[]'') ''key''"
         and p = 1 and ps = 50
         and ?un1.0 = "\<lambda>_. Inr [] :: string + unit list" and oc = "''99999''"
         and ?un2.0 = "\<lambda>_. Inr [] :: string + unit list" and nome = "''maria''"
         and ?un3.0 = "\<lambda>_. Inr [] :: string + unit list"
         and lm = "''09/2026''" and cpf = "''12345678901''" and ma = "[]"
         and ?un4.0 = "\<lambda>_. Inr [] :: string + unit list" and uf = "[]"
         and ?un5.0 = "\<lambda>_. Inr [] :: string + unit list" and cn = "[]"
         and ?un6.0 = "\<lambda>_. Inr [] :: string + unit list"
         and ?un7.0 = "\<lambda>_. Inr [] :: string + unit list" and sid = "''33''"
         and ?un8.0 = "\<lambda>_. Inr [] :: string + (string \<times> unit json) list list"
         and fv = "\<lambda>_. []" and loc = "[]"
         and ?un9.0 = "\<lambda>_. Inr blank_CNPJData" and cnpj = "''12345678000190''"
         and ?un10.0 = "\<lambda>_. Inr []" and ind = "''selic''" and n = 30
         and ?un11.0 = "\<lambda>_. Inr \<lparr>exchange_result.Value = [] :: unit list\<rparr>"
         and today = "''10-31-2026''" and cur = "[]" and d = "[]"
         and ?un12.0 = "\<lambda>_. Inr ()"
         and ?un13.0 = "\<lambda>_. Inr \<lparr>contracts_result.Data = [] :: unit list, TotalRegistros = 1234\<rparr>"
         and sd = "''20240101''" and ed = "''20240131''" and mc = 0 and st = "[]"
         and ?un14.0 = "\<lambda>_. Inr \<lparr>registrations_result.Data = [] :: unit list\<rparr>"]
  by (simp add: GetCNPJ_run GetIndicator_run GetSELIC_run GetIPCA_run GetExchangeRate_run
        GetPIXStats_run GetStates_run GetMunicipalities_run GetPopulation_run
        pncp_SearchContracts_run SearchPriceRegistrations_run
        transparencia_SearchContracts_run SearchServidores_run GetServidorRemuneracao_run
        SearchConvenios_run SearchCEIS_run)




section \<open>Requests\<close>

lemma Encode_contratos:
  "Encode [(''codigoOrgao'', a), (''pagina'', p), (''tamanhoPagina'', s)] =
     ''codigoOrgao='' @ QueryEscape a @ ''&pagina='' @ QueryEscape p
     @ ''&tamanhoPagina='' @ QueryEscape s"
  by (simp add: Encode_def sort_by_key_def QueryEscape_keys)

lemma Encode_servidores:
  "Encode [(''nome'', a), (''pagina'', p), (''tamanhoPagina'', s)] =
     ''nome='' @ QueryEscape a @ ''&pagina='' @ QueryEscape p
     @ ''&tamanhoPagina='' @ QueryEscape s"
  by (simp add: Encode_def sort_by_key_def QueryEscape_keys)


lemma Encode_convenios:
  "Encode [(''uf'', a), (''pagina'', p), (''tamanhoPagina'', s)] =
     ''pagina='' @ QueryEscape p @ ''&tamanhoPagina='' @ QueryEscape s
     @ ''&uf='' @ QueryEscape a"
  by (simp add: Encode_def sort_by_key_def QueryEscape_keys)

lemma Encode_ceis:
  "Encode [(''cnpj'', a), (''pagina'', p), (''tamanhoPagina'', s)] =
     ''cnpj='' @ QueryEscape a @ ''&pagina='' @ QueryEscape p
     @ ''&tamanhoPagina='' @ QueryEscape s"
  "Encode [(''pagina'', p), (''tamanhoPagina'', s)] =
     ''pagina='' @ QueryEscape p @ ''&tamanhoPagina='' @ QueryEscape s"
  by (simp_all add: Encode_def sort_by_key_def QueryEscape_keys)

lemma Encode_atas:
  "Encode [(''tamanhoPagina'', s), (''pagina'', p)] =
     ''pagina='' @ QueryEscape p @ ''&tamanhoPagina='' @ QueryEscape s"
  "Encode [(''tamanhoPagina'', s), (''pagina'', p), (''uf'', u)] =
     ''pagina='' @ QueryEscape p @ ''&tamanhoPagina='' @ QueryEscape s
     @ ''&uf='' @ QueryEscape u"
  by (simp_all add: Encode_def sort_by_key_def QueryEscape_keys)

lemma Encode_publicacao:
  "Encode [(''dataInicial'', a), (''dataFinal'', b), (''codigoModalidadeContratacao'', m),
           (''tamanhoPagina'', s), (''pagina'', p)] =
     ''codigoModalidadeContratacao='' @ QueryEscape m @ ''&dataFinal='' @ QueryEscape b
     @ ''&dataInicial='' @ QueryEscape a @ ''&pagina='' @ QueryEscape p
     @ ''&tamanhoPagina='' @ QueryEscape s"
  "Encode [(''dataInicial'', a), (''dataFinal'', b), (''codigoModalidadeContratacao'', m),
           (''tamanhoPagina'', s), (''pagina'', p), (''uf'', u)] =
     ''codigoModalidadeContratacao='' @ QueryEscape m @ ''&dataFinal='' @ QueryEscape b
     @ ''&dataInicial='' @ QueryEscape a @ ''&pagina='' @ QueryEscape p
     @ ''&tamanhoPagina='' @ QueryEscape s @ ''&uf='' @ QueryEscape u"
  by (simp_all add: Encode_def sort_by_key_def QueryEscape_keys)

lemma fst_decode:
  "fst (case p of
          (sent, Inl e) \<Rightarrow> (sent, f e)
        | (sent, Inr b) \<Rightarrow> (case un b of Inl e \<Rightarrow> (sent, g e) | Inr v \<Rightarrow> (sent, h v))) = fst p"
  by (auto split: prod.splits sum.splits)



lemma pncp_doRequest_url:
  "map req_url (fst (pncp_doRequest c ep ps)) =
     [pncp_BaseURL @ ep @ (if ps = [] then [] else ''?'' @ Encode ps)]"
  by (simp add: pncp_doRequest_def Let_def)

lemma transparencia_doRequest_url:
  "map req_url (fst (transparencia_doRequest tc ep ps)) =
     [baseURL tc @ ep @ (if ps = [] then [] else ''?'' @ Encode ps)]"
  by (simp add: transparencia_doRequest_def Let_def)

lemma clamp_10_500:
  "(if ps < 10 then 10 else if ps > 500 then 500 else ps) = max 10 (min 500 (ps::int))"
  by auto

lemma pncp_SearchContracts_url:
  "map req_url (fst (pncp_SearchContracts c un sd ed mc st p ps)) =
     [pncp_BaseURL @ ''/contratacoes/publicacao?codigoModalidadeContratacao=''
        @ fmt_d (if mc = 0 then 6 else mc)
        @ ''&dataFinal='' @ QueryEscape ed @ ''&dataInicial='' @ QueryEscape sd
        @ ''&pagina='' @ fmt_d (if p < 1 then 1 else p)
        @ ''&tamanhoPagina='' @ fmt_d (max 10 (min 500 ps))
        @ (if st = [] then [] else ''&uf='' @ QueryEscape st)]"
  unfolding pncp_SearchContracts_def Let_def fst_decode pncp_doRequest_url clamp_10_500
  by (cases "st = []") (simp_all add: Encode_publicacao QueryEscape_fmt_d)

lemma SearchPriceRegistrations_url:
  "map req_url (fst (SearchPriceRegistrations c un st p ps)) =
     [pncp_BaseURL @ ''/atas-registro-preco?pagina='' @ fmt_d (if p < 1 then 1 else p)
        @ ''&tamanhoPagina='' @ fmt_d (max 10 (min 500 ps))
        @ (if st = [] then [] else ''&uf='' @ QueryEscape st)]"
  unfolding SearchPriceRegistrations_def Let_def fst_decode pncp_doRequest_url clamp_10_500
  by (cases "st = []") (simp_all add: Encode_atas QueryEscape_fmt_d)

lemma transparencia_SearchContracts_url:
  "map req_url (fst (transparencia_SearchContracts tc un oc p ps)) =
     [baseURL tc @ ''/contratos?codigoOrgao='' @ QueryEscape (if oc = [] then ''36000'' else oc)
        @ ''&pagina='' @ fmt_d (if p < 1 then 1 else p)
        @ ''&tamanhoPagina='' @ fmt_d (if ps < 1 \<or> 500 < ps then 100 else ps)]"
  unfolding transparencia_SearchContracts_def Let_def fst_decode transparencia_doRequest_url
  by (simp add: Encode_contratos QueryEscape_fmt_d)

lemma SearchServidores_url:
  "nome \<noteq> [] \<Longrightarrow>
   map req_url (fst (SearchServidores tc un nome p ps)) =
     [baseURL tc @ ''/servidores?nome='' @ QueryEscape nome
        @ ''&pagina='' @ fmt_d (if p < 1 then 1 else p)
        @ ''&tamanhoPagina='' @ fmt_d (if ps < 1 \<or> 500 < ps then 100 else ps)]"
  unfolding SearchServidores_def Let_def
  by (simp only: if_False fst_decode transparencia_doRequest_url)
     (simp add: Encode_servidores QueryEscape_fmt_d)


lemma SearchConvenios_url:
  "map req_url (fst (SearchConvenios tc un uf p ps)) =
     [baseURL tc @ ''/convenios?pagina='' @ fmt_d (if p < 1 then 1 else p)
        @ ''&tamanhoPagina='' @ fmt_d (if ps < 1 \<or> 500 < ps then 100 else ps)
        @ ''&uf='' @ QueryEscape (if uf = [] then ''MG'' else uf)]"
  unfolding SearchConvenios_def Let_def fst_decode transparencia_doRequest_url
  by (simp add: Encode_convenios QueryEscape_fmt_d)

lemma SearchCEIS_url:
  "map req_url (fst (SearchCEIS tc un cn p ps)) =
     [baseURL tc @ ''/ceis?'' @ (if cn = [] then [] else ''cnpj='' @ QueryEscape cn @ ''&'')
        @ ''pagina='' @ fmt_d (if p < 1 then 1 else p)
        @ ''&tamanhoPagina='' @ fmt_d (if ps < 1 \<or> 500 < ps then 100 else ps)]"
  unfolding SearchCEIS_def Let_def fst_decode transparencia_doRequest_url
  by (cases "cn = []") (simp_all add: Encode_ceis QueryEscape_fmt_d)











text \<open>
  C1, as the code has it. The two searches of package pncp clamp the page size into
  10..500: the request carries \<open>tamanhoPagina\<close> equal to the size raised to 10 and
  lowered to 500, and the envelope of the search for contracts repeats it (the envelope
  of the search for price registrations has no such field). The four searches of
  package transparencia do not clamp: a size below 1 or above 500 is replaced by the
  default 100, in the request and in the envelope. In both packages a size inside the
  range is sent and echoed as it is.
\<close>

theorem page_size_effective:
  "map req_url (fst (pncp_SearchContracts c un1 sd ed mc st p ps)) =
     [pncp_BaseURL @ ''/contratacoes/publicacao?codigoModalidadeContratacao=''
        @ fmt_d (if mc = 0 then 6 else mc)
        @ ''&dataFinal='' @ QueryEscape ed @ ''&dataInicial='' @ QueryEscape sd
        @ ''&pagina='' @ fmt_d (if p < 1 then 1 else p)
        @ ''&tamanhoPagina='' @ fmt_d (max 10 (min 500 ps))
        @ (if st = [] then [] else ''&uf='' @ QueryEscape st)] \<and>
   (\<forall>r. snd (pncp_SearchContracts c un1 sd ed mc st p ps) = Inr r \<longrightarrow>
      pncp_ContractsResponse.PageSize r = max 10 (min 500 ps)) \<and>
   map req_url (fst (SearchPriceRegistrations c un2 st p ps)) =
     [pncp_BaseURL @ ''/atas-registro-preco?pagina='' @ fmt_d (if p < 1 then 1 else p)
        @ ''&tamanhoPagina='' @ fmt_d (max 10 (min 500 ps))
        @ (if st = [] then [] else ''&uf='' @ QueryEscape st)] \<and>
   map req_url (fst (transparencia_SearchContracts tc un3 oc p ps)) =
     [baseURL tc @ ''/contratos?codigoOrgao='' @ QueryEscape (if oc = [] then ''36000'' else oc)
        @ ''&pagina='' @ fmt_d (if p < 1 then 1 else p)
        @ ''&tamanhoPagina='' @ fmt_d (if ps < 1 \<or> 500 < ps then 100 else ps)] \<and>
   (\<forall>r. snd (transparencia_SearchContracts tc un3 oc p ps) = Inr r \<longrightarrow>
      transparencia_ContractsResponse.PageSize r = (if ps < 1 \<or> 500 < ps then 100 else ps)) \<and>
   (nome \<noteq> [] \<longrightarrow>
      map req_url (fst (SearchServidores tc un4 nome p ps)) =
        [baseURL tc @ ''/servidores?nome='' @ QueryEscape nome
           @ ''&pagina='' @ fmt_d (if p < 1 then 1 else p)
           @ ''&tamanhoPagina='' @ fmt_d (if ps < 1 \<or> 500 < ps then 100 else ps)]) \<and>
   (\<forall>r. snd (SearchServidores tc un4 nome p ps) = Inr r \<longrightarrow>
      ServidoresResponse.PageSize r = (if ps < 1 \<or> 500 < ps then 100 else ps)) \<and>
   map req_url (fst (SearchConvenios tc un5 uf p ps)) =
     [baseURL tc @ ''/convenios?pagina='' @ fmt_d (if p < 1 then 1 else p)
        @ ''&tamanhoPagina='' @ fmt_d (if ps < 1 \<or> 500 < ps then 100 else ps)
        @ ''&uf='' @ QueryEscape (if uf = [] then ''MG'' else uf)] \<and>
   (\<forall>r. snd (SearchConvenios tc un5 uf p ps) = Inr r \<longrightarrow>
      ConveniosResponse.PageSize r = (if ps < 1 \<or> 500 < ps then 100 else ps)) \<and>
   map req_url (fst (SearchCEIS tc un6 cn p ps)) =
     [baseURL tc @ ''/ceis?'' @ (if cn = [] then [] else ''cnpj='' @ QueryEscape cn @ ''&'')
        @ ''pagina='' @ fmt_d (if p < 1 then 1 else p)
        @ ''&tamanhoPagina='' @ fmt_d (if ps < 1 \<or> 500 < ps then 100 else ps)] \<and>
   (\<forall>r. snd (SearchCEIS tc un6 cn p ps) = Inr r \<longrightarrow>
      CEISResponse.PageSize r = (if ps < 1 \<or> 500 < ps then 100 else ps))"
proof -
  have e1: "\<forall>r. snd (pncp_SearchContracts c un1 sd ed mc st p ps) = Inr r \<longrightarrow>
       pncp_ContractsResponse.PageSize r = max 10 (min 500 ps)"
    by (intro allI impI) (drule pncp_SearchContracts_envelope, simp)
  have e2: "\<forall>r. snd (transparencia_SearchContracts tc un3 oc p ps) = Inr r \<longrightarrow>
       transparencia_ContractsResponse.PageSize r = (if ps < 1 \<or> 500 < ps then 100 else ps)"
    by (intro allI impI) (drule transparencia_SearchContracts_envelope, simp)
  have e3: "\<forall>r. snd (SearchServidores tc un4 nome p ps) = Inr r \<longrightarrow>
       ServidoresResponse.PageSize r = (if ps < 1 \<or> 500 < ps then 100 else ps)"
    by (intro allI impI) (drule SearchServidores_envelope, simp)
  have e4: "\<forall>r. snd (SearchConvenios tc un5 uf p ps) = Inr r \<longrightarrow>
       ConveniosResponse.PageSize r = (if ps < 1 \<or> 500 < ps then 100 else ps)"
    by (intro allI impI) (drule SearchConvenios_envelope, simp)
  have e5: "\<forall>r. snd (SearchCEIS tc un6 cn p ps) = Inr r \<longrightarrow>
       CEISResponse.PageSize r = (if ps < 1 \<or> 500 < ps then 100 else ps)"
    by (intro allI impI) (drule SearchCEIS_envelope, simp)
  have u: "nome \<noteq> [] \<longrightarrow>
      map req_url (fst (SearchServidores tc un4 nome p ps)) =
        [baseURL tc @ ''/servidores?nome='' @ QueryEscape nome
           @ ''&pagina='' @ fmt_d (if p < 1 then 1 else p)
           @ ''&tamanhoPagina='' @ fmt_d (if ps < 1 \<or> 500 < ps then 100 else ps)]"
    by (intro impI) (erule SearchServidores_url)
  show ?thesis
    by (intro conjI e1 e2 e3 e4 e5 u pncp_SearchContracts_url SearchPriceRegistrations_url
          transparencia_SearchContracts_url SearchConvenios_url SearchCEIS_url)
qed
theorem page_size_effective_witness:
  "map req_url (fst (pncp_SearchContracts (\<lambda>_. Resp 200 ''[]'')
       (\<lambda>_. Inr \<lparr>contracts_result.Data = [] :: unit list, TotalRegistros = 0\<rparr>)
       ''20240101'' ''20240131'' 0 [] 1 10000)) =
     [''https://pncp.gov.br/api/consulta/v1/contratacoes/publicacao?codigoModalidadeContratacao=6&dataFinal=20240131&dataInicial=20240101&pagina=1&tamanhoPagina=500''] \<and>
   (\<exists>r. snd (pncp_SearchContracts (\<lambda>_. Resp 200 ''[]'')
       (\<lambda>_. Inr \<lparr>contracts_result.Data = [] :: unit list, TotalRegistros = 0\<rparr>)
       ''20240101'' ''20240131'' 0 [] 1 10000) = Inr r \<and>
       pncp_ContractsResponse.PageSize r = 500) \<and>
   map req_url (fst (SearchPriceRegistrations (\<lambda>_. Resp 200 ''[]'')
       (\<lambda>_. Inr \<lparr>registrations_result.Data = [] :: unit list\<rparr>) [] 1 5)) =
     [''https://pncp.gov.br/api/consulta/v1/atas-registro-preco?pagina=1&tamanhoPagina=10''] \<and>
   ''maria'' \<noteq> [] \<and>
   map req_url (fst (SearchServidores (NewClient (\<lambda>_. Resp 200 ''[]'') ''key'')
       (\<lambda>_. Inr [] :: string + unit list) ''maria'' 1 10000)) =
     [''https://api.portaldatransparencia.gov.br/api-de-dados/servidores?nome=maria&pagina=1&tamanhoPagina=100''] \<and>
   (\<exists>r. snd (SearchServidores (NewClient (\<lambda>_. Resp 200 ''[]'') ''key'')
       (\<lambda>_. Inr [] :: string + unit list) ''maria'' 1 10000) = Inr r \<and>
       ServidoresResponse.PageSize r = 100) \<and>
   (\<exists>r. snd (transparencia_SearchContracts (NewClient (\<lambda>_. Resp 200 ''[]'') ''key'')
       (\<lambda>_. Inr [] :: string + unit list) [] 1 5) = Inr r \<and>
       transparencia_ContractsResponse.PageSize r = 5) \<and>
   (\<exists>r. snd (SearchConvenios (NewClient (\<lambda>_. Resp 200 ''[]'') ''key'')
       (\<lambda>_. Inr [] :: string + unit list) [] 1 5) = Inr r \<and>
       ConveniosResponse.PageSize r = 5) \<and>
   (\<exists>r. snd (SearchCEIS (NewClient (\<lambda>_. Resp 200 ''[]'') ''key'')
       (\<lambda>_. Inr [] :: string + unit list) [] 1 5) = Inr r \<and>
       CEISResponse.PageSize r = 5)"
proof -
  have n: "fmt_d 1 = ''1''" "fmt_d 6 = ''6''" "fmt_d 10 = ''10''" "fmt_d 100 = ''100''"
    "fmt_d 500 = ''500''"
    by (simp_all add: fmt_d_def dec.simps)
  have q: "QueryEscape ''20240101'' = ''20240101''" "QueryEscape ''20240131'' = ''20240131''"
    "QueryEscape ''maria'' = ''maria''"
    by (simp_all add: QueryEscape_def escape_byte_def shouldEscape_def)
  have r1: "\<exists>r. snd (pncp_SearchContracts (\<lambda>_. Resp 200 ''[]'')
       (\<lambda>_. Inr \<lparr>contracts_result.Data = [] :: unit list, TotalRegistros = 0\<rparr>)
       ''20240101'' ''20240131'' 0 [] 1 10000) = Inr r"
    by (simp add: pncp_SearchContracts_def pncp_doRequest_def Let_def)
  have r2: "\<exists>r. snd (SearchServidores (NewClient (\<lambda>_. Resp 200 ''[]'') ''key'')
       (\<lambda>_. Inr [] :: string + unit list) ''maria'' 1 10000) = Inr r"
    by (simp add: SearchServidores_def transparencia_doRequest_def NewClient_def Let_def)
  have r3: "\<exists>r. snd (transparencia_SearchContracts (NewClient (\<lambda>_. Resp 200 ''[]'') ''key'')
       (\<lambda>_. Inr [] :: string + unit list) [] 1 5) = Inr r"
    by (simp add: transparencia_SearchContracts_def transparencia_doRequest_def NewClient_def
          Let_def)
  have r4: "\<exists>r. snd (SearchConvenios (NewClient (\<lambda>_. Resp 200 ''[]'') ''key'')
       (\<lambda>_. Inr [] :: string + unit list) [] 1 5) = Inr r"
    by (simp add: SearchConvenios_def transparencia_doRequest_def NewClient_def Let_def)
  have r5: "\<exists>r. snd (SearchCEIS (NewClient (\<lambda>_. Resp 200 ''[]'') ''key'')
       (\<lambda>_. Inr [] :: string + unit list) [] 1 5) = Inr r"
    by (simp add: SearchCEIS_def transparencia_doRequest_def NewClient_def Let_def)
  note big = page_size_effective
      [where c = "\<lambda>_. Resp 200 ''[]''"
         and tc = "NewClient (\<lambda>_. Resp 200 ''[]'') ''key''"
         and p = 1 and ps = 10000
         and ?un1.0 = "\<lambda>_. Inr \<lparr>contracts_result.Data = [] :: unit list, TotalRegistros = 0\<rparr>"
         and sd = "''20240101''" and ed = "''20240131''" and mc = 0 and st = "[]"
         and ?un2.0 = "\<lambda>_. Inr \<lparr>registrations_result.Data = [] :: unit list\<rparr>"
         and ?un3.0 = "\<lambda>_. Inr [] :: string + unit list" and oc = "[]"
         and ?un4.0 = "\<lambda>_. Inr [] :: string + unit list" and nome = "''maria''"
         and ?un5.0 = "\<lambda>_. Inr [] :: string + unit list" and uf = "[]"
         and ?un6.0 = "\<lambda>_. Inr [] :: string + unit list" and cn = "[]"]
  note small = page_size_effective
      [where c = "\<lambda>_. Resp 200 ''[]''"
         and tc = "NewClient (\<lambda>_. Resp 200 ''[]'') ''key''"
         and p = 1 and ps = 5
         and ?un1.0 = "\<lambda>_. Inr \<lparr>contracts_result.Data = [] :: unit list, TotalRegistros = 0\<rparr>"
         and sd = "''20240101''" and ed = "''20240131''" and mc = 0 and st = "[]"
         and ?un2.0 = "\<lambda>_. Inr \<lparr>registrations_result.Data = [] :: unit list\<rparr>"
         and ?un3.0 = "\<lambda>_. Inr [] :: string + unit list" and oc = "[]"
         and ?un4.0 = "\<lambda>_. Inr [] :: string + unit list" and nome = "''maria''"
         and ?un5.0 = "\<lambda>_. Inr [] :: string + unit list" and uf = "[]"
         and ?un6.0 = "\<lambda>_. Inr [] :: string + unit list" and cn = "[]"]
  show ?thesis
    using big small r1 r2 r3 r4 r5
    by (auto simp: n q NewClient_def pncp_BaseURL_def transparencia_BaseURL_def)
qed

text \<open>
  C1 as stated fails in package transparencia: asked for a page of 10000, the search
  for contracts sends and echoes 100, not the maximum 500; asked for a page of 0, it
  sends and echoes 100, not the minimum 1.
\<close>

theorem page_size_effective_counterexample:
  "transparencia_SearchContracts (NewClient (\<lambda>_. Resp 200 ''[]'') [])
       (\<lambda>_. Inr [] :: string + unit list) ''36000'' 1 10000 =
     ([\<lparr>req_url = ''https://api.portaldatransparencia.gov.br/api-de-dados/contratos?codigoOrgao=36000&pagina=1&tamanhoPagina=100'',
        req_headers = [(''Accept'', ''application/json''), (''User-Agent'', ''MCP-Brasil/1.0 (Go)'')]\<rparr>],
      Inr \<lparr>transparencia_ContractsResponse.Contracts = [],
           transparencia_ContractsResponse.Total = 0,
           transparencia_ContractsResponse.Page = 1,
           transparencia_ContractsResponse.PageSize = 100,
           transparencia_ContractsResponse.OrgaoCode = ''36000'',
           transparencia_ContractsResponse.OrgaoName =
             ''Minist'' @ [CHR 0xC3, CHR 0xA9] @ ''rio da Sa'' @ [CHR 0xC3, CHR 0xBA] @ ''de'',
           transparencia_ContractsResponse.Source = ''portal_transparencia_api''\<rparr>) \<and>
   map_sum id transparencia_ContractsResponse.PageSize
     (snd (transparencia_SearchContracts (NewClient (\<lambda>_. Resp 200 ''[]'') [])
        (\<lambda>_. Inr [] :: string + unit list) ''36000'' 1 0)) = Inr 100"
proof -
  have n: "fmt_d 1 = ''1''" "fmt_d 100 = ''100''"
    by (simp_all add: fmt_d_def dec.simps)
  have q: "QueryEscape ''36000'' = ''36000''"
    by (simp add: QueryEscape_def escape_byte_def shouldEscape_def)
  have e: "Encode [(''codigoOrgao'', ''36000''), (''pagina'', ''1''), (''tamanhoPagina'', ''100'')]
      = ''codigoOrgao=36000&pagina=1&tamanhoPagina=100''"
    using n q QueryEscape_fmt_d [of 1] QueryEscape_fmt_d [of 100]
    by (simp add: Encode_contratos)
  have k: "KnownOrgaos ''36000'' =
      Some (''Minist'' @ [CHR 0xC3, CHR 0xA9] @ ''rio da Sa'' @ [CHR 0xC3, CHR 0xBA] @ ''de'')"
    by (simp add: KnownOrgaos_def KnownOrgaos_list_def)
  show ?thesis
    by (simp add: transparencia_SearchContracts_def transparencia_doRequest_def NewClient_def
          Let_def n e k transparencia_BaseURL_def)
qed

section \<open>Population payloads\<close>

text \<open>
  Where the extraction pass takes the \<open>ok\<close> result of a type assertion, a missing or
  wrongly typed entry gives the empty list: no element at all, no \<open>resultados\<close>, an empty
  \<open>resultados\<close>, no \<open>series\<close>, or a series element without \<open>serie\<close>.
\<close>

lemma extract_population_lenient:
  "extract_population fv [] = Inr []"
  "extract_population fv [[]] = Inr []"
  "extract_population fv [[(''resultados'', JString x)]] = Inr []"
  "extract_population fv [[(''resultados'', JArray [])]] = Inr []"
  "extract_population fv [[(''resultados'', JArray [JObject []])]] = Inr []"
  "extract_population fv [[(''resultados'', JArray [JObject [(''series'', JNull)]])]] = Inr []"
  "extract_population fv
     [[(''resultados'', JArray [JObject [(''series'',
         JArray [JObject [(''localidade'', JObject [])]])]])]] = Inr []"
  by (simp_all add: extract_population_def)

text \<open>
  C2 fails on the code. The four assertions written without \<open>ok\<close> panic when the shape is
  absent: on the body
  \<^verbatim>\<open>[{"resultados":[{"series":[{"serie":{"2020":"211755692"}}]}]}]\<close>,
  where \<open>localidade\<close> is missing, \<open>GetPopulation\<close> sends its request and then panics
  instead of returning an empty \<open>Data\<close>. The same happens when \<open>nome\<close> is missing or is
  not a string, when an element of \<open>series\<close> is not an object, and when the first element
  of \<open>resultados\<close> is not an object.
\<close>

theorem GetPopulation_panics_on_absent_shape:
  "GetPopulation (\<lambda>_. Resp 200 [])
     (\<lambda>_. Inr [[(''resultados'', JArray [JObject [(''series'',
              JArray [JObject [(''serie'',
                JObject [(''2020'', JString ''211755692'' :: unit json)])]])]])]])
     (\<lambda>_. []) [] =
     ([\<lparr>req_url = ''https://servicodados.ibge.gov.br/api/v3/agregados/6579/periodos/-6/variaveis/9324?localidades=N1[all]'',
        req_headers = [(''Accept'', ''application/json'')]\<rparr>],
      Inl Panic) \<and>
   extract_population (\<lambda>_. [])
     [[(''resultados'', JArray [JObject [(''series'',
          JArray [JObject [(''localidade'', JObject [(''nome'', JNumber ())]),
                           (''serie'', JObject [(''2020'', JString ''211755692'')])]])]])]]
     = Inl Panic \<and>
   extract_population (\<lambda>_. [])
     [[(''resultados'', JArray [JObject [(''series'', JArray [JNull :: unit json])]])]]
     = Inl Panic \<and>
   extract_population (\<lambda>_. [])
     [[(''resultados'', JArray [JString ''x'' :: unit json])]]
     = Inl Panic"
  by (simp add: GetPopulation_def ibge_doRequest_def extract_population_def AgregadosURL_def
        Let_def)

end
